theory Spec2Isabelle
  imports Complex_Main "HOL-Library.Multiset" "HOL-Library.Char_ord" "HOL-Library.List_Lexorder"
begin

section \<open>Values of the host language\<close>

text \<open>
  The filter engine of \<^verbatim>\<open>tab-scroll-fix.js\<close> (the "Interactive Input Filter System")
  is embedded function by function. Numbers are rationals (floating rounding is left
  out), strings are character lists, and a JavaScript object used as a dictionary is an
  association list with unique keys in insertion order.

  The embedding follows the code on the values that a dashboard holds: numbers that are
  finite and are computed without rounding (categories and labels that are numbers are
  integers of absolute value below \<open>2^53\<close>, printed by \<^verbatim>\<open>String\<close> digit by digit), and dictionary
  keys that are not names of members of \<^verbatim>\<open>Object.prototype\<close> (\<open>plainKey\<close> below). Outside
  these the code rounds to doubles, reads and prints \<^verbatim>\<open>Infinity\<close> and the exponent form, and
  finds inherited members under keys that were never stored; none of this is embedded.
\<close>

text \<open>
  A category of the x axis, or a slider label: a number or a string. The numbers are
  integers; a fractional category or label is not represented.
\<close>

datatype jval = JNum int | JStr string

text \<open>
  One entry of a series' data array: \<^verbatim>\<open>null\<close>, a bare number, an array such as
  \<^verbatim>\<open>[x, y]\<close>, or a point object of which the fields \<^verbatim>\<open>x\<close> and \<^verbatim>\<open>y\<close> are kept.
\<close>

datatype jpoint = PNull | PNum rat | PArr "rat list" | PObj "rat option" "rat option"

datatype error = TypeError

subsection \<open>Strings\<close>

definition lower_char :: "char \<Rightarrow> char" where
  "lower_char c =
     (case map_of (zip ''ABCDEFGHIJKLMNOPQRSTUVWXYZ'' ''abcdefghijklmnopqrstuvwxyz'') c of
        None \<Rightarrow> c
      | Some l \<Rightarrow> l)"

text \<open>\<^verbatim>\<open>s.toLowerCase()\<close>, on the ASCII letters.\<close>

definition toLowerCase :: "string \<Rightarrow> string" where
  "toLowerCase s = map lower_char s"

definition is_ws :: "char \<Rightarrow> bool" where
  "is_ws c = ((of_char c :: nat) \<in> {9, 10, 11, 12, 13, 32})"

text \<open>\<^verbatim>\<open>s.trim()\<close>, on the ASCII white space.\<close>

definition trim :: "string \<Rightarrow> string" where
  "trim s = rev (dropWhile is_ws (rev (dropWhile is_ws s)))"

fun starts_with :: "string \<Rightarrow> string \<Rightarrow> bool" where
  "starts_with s [] = True"
| "starts_with [] (c # t) = False"
| "starts_with (d # s) (c # t) = (d = c \<and> starts_with s t)"

text \<open>\<^verbatim>\<open>s.includes(t)\<close>: \<open>t\<close> occurs in \<open>s\<close> as a contiguous substring.\<close>

fun str_includes :: "string \<Rightarrow> string \<Rightarrow> bool" where
  "str_includes [] t = (t = [])"
| "str_includes (c # s) t = (starts_with (c # s) t \<or> str_includes s t)"

subsection \<open>Numbers and strings\<close>

definition is_digit :: "char \<Rightarrow> bool" where
  "is_digit c = (48 \<le> (of_char c :: nat) \<and> (of_char c :: nat) \<le> 57)"

definition digit_val :: "char \<Rightarrow> int" where
  "digit_val c = (of_char c :: int) - 48"

text \<open>The value of a string of decimal digits.\<close>

definition digits_val :: "string \<Rightarrow> int" where
  "digits_val s = foldl (\<lambda>a c. 10 * a + digit_val c) 0 s"

definition digit_char :: "nat \<Rightarrow> char" where
  "digit_char d = ''0123456789'' ! d"

fun show_nat :: "nat \<Rightarrow> string" where
  "show_nat m = (if m < 10 then [digit_char m] else show_nat (m div 10) @ [digit_char (m mod 10)])"

text \<open>
  \<^verbatim>\<open>String(n)\<close> for an integer \<open>n\<close> of absolute value below \<open>10^21\<close>: the decimal digits.
  From \<open>10^21\<close> on the code prints the exponent form, which is not embedded.
\<close>

definition show_int :: "int \<Rightarrow> string" where
  "show_int i = (if i < 0 then CHR ''-'' # show_nat (nat (- i)) else show_nat (nat i))"

text \<open>\<^verbatim>\<open>String(v)\<close> for a category or a label.\<close>

fun String :: "jval \<Rightarrow> string" where
  "String (JNum i) = show_int i"
| "String (JStr s) = s"

text \<open>
  The sign prefix of a numeric literal: the factor and the rest of the string.
\<close>

fun take_sign :: "string \<Rightarrow> rat \<times> string" where
  "take_sign [] = (1, [])"
| "take_sign (c # s) =
     (if c = CHR ''-'' then (- 1, s) else if c = CHR ''+'' then (1, s) else (1, c # s))"

text \<open>
  The exponent part \<^verbatim>\<open>e[+-]digits\<close> at the head of a string, as a power of ten; 1 when
  there is none.
\<close>

definition exponent_factor :: "string \<Rightarrow> rat" where
  "exponent_factor s =
     (case s of
        [] \<Rightarrow> 1
      | c # r \<Rightarrow>
          if c = CHR ''e'' \<or> c = CHR ''E'' then
            (let (sg, r') = take_sign r; ds = takeWhile is_digit r'
             in if ds = [] then 1
                else if sg < 0 then 1 / 10 ^ nat (digits_val ds) else 10 ^ nat (digits_val ds))
          else 1)"

text \<open>
  \<^verbatim>\<open>parseFloat(s)\<close> on a string: leading white space, an optional sign, the longest
  decimal literal, anything after it ignored. \<open>None\<close> is \<^verbatim>\<open>NaN\<close>. The value is the
  exact rational of the literal, where the code rounds it to the nearest double: the two
  agree in every comparison of this file when the literal is a double (every integer of up
  to 15 digits is). The literals \<^verbatim>\<open>Infinity\<close>, \<^verbatim>\<open>+Infinity\<close> and \<^verbatim>\<open>-Infinity\<close> have no rational
  value: they read as \<open>None\<close> here and as an infinite number in the code, so a string
  that begins with one of them is outside the embedding.
\<close>

definition parseFloat_str :: "string \<Rightarrow> rat option" where
  "parseFloat_str s =
     (let (sg, s2) = take_sign (dropWhile is_ws s);
          ip = takeWhile is_digit s2;
          r1 = dropWhile is_digit s2;
          fp = (case r1 of [] \<Rightarrow> [] | c # r \<Rightarrow> if c = CHR ''.'' then takeWhile is_digit r else []);
          r2 = (case r1 of [] \<Rightarrow> [] | c # r \<Rightarrow> if c = CHR ''.'' then dropWhile is_digit r else r1)
      in if ip = [] \<and> fp = [] then None
         else Some (sg * (of_int (digits_val ip) + of_int (digits_val fp) / 10 ^ length fp)
                       * exponent_factor r2))"

text \<open>\<^verbatim>\<open>parseFloat(c)\<close> for a category: a number reads as itself.\<close>

fun parseFloat :: "jval \<Rightarrow> rat option" where
  "parseFloat (JNum i) = Some (of_int i)"
| "parseFloat (JStr s) = parseFloat_str s"

text \<open>\<^verbatim>\<open>Math.round(x)\<close>: the nearest integer, a half rounded up.\<close>

definition Math_round :: "rat \<Rightarrow> int" where
  "Math_round x = \<lfloor>x + 1 / 2\<rfloor>"

text \<open>Truthiness of a label: \<^verbatim>\<open>0\<close> and the empty string are falsy.\<close>

fun truthy :: "jval \<Rightarrow> bool" where
  "truthy (JNum i) = (i \<noteq> 0)"
| "truthy (JStr s) = (s \<noteq> [])"

subsection \<open>Objects used as dictionaries\<close>

text \<open>
  The association list holds the own properties of an object created by \<^verbatim>\<open>{}\<close>. In the
  code such an object inherits the members of \<^verbatim>\<open>Object.prototype\<close>: reading one of their
  names finds the inherited member when the object has no own property of that name, and
  assigning to \<^verbatim>\<open>__proto__\<close> stores no property. \<open>obj_get\<close> and \<open>obj_set\<close> treat every key
  alike, so they follow the code on the keys that are none of these names.
\<close>

type_synonym 'a jsobj = "(string \<times> 'a) list"



definition obj_get :: "'a jsobj \<Rightarrow> string \<Rightarrow> 'a option" where
  "obj_get ob k = map_of ob k"

text \<open>\<^verbatim>\<open>ob[k] = v\<close>: an existing key keeps its place, a new key goes last.\<close>

fun obj_set :: "'a jsobj \<Rightarrow> string \<Rightarrow> 'a \<Rightarrow> 'a jsobj" where
  "obj_set [] k v = [(k, v)]"
| "obj_set ((k', v') # ob) k v = (if k' = k then (k, v) # ob else (k', v') # obj_set ob k v)"

text \<open>
  A key that is an array index (a canonical decimal numeral below \<open>2^32 - 1\<close>):
  \<^verbatim>\<open>Object.keys\<close> lists these first, in ascending order, then the other keys in
  insertion order.
\<close>

definition is_array_index :: "string \<Rightarrow> bool" where
  "is_array_index k =
     (case k of
        [] \<Rightarrow> False
      | c # r \<Rightarrow> list_all is_digit k \<and> (if c = CHR ''0'' then r = [] else True) \<and>
                 digits_val k < 4294967295)"

definition obj_entries :: "'a jsobj \<Rightarrow> (string \<times> 'a) list" where
  "obj_entries ob =
     sort_key (\<lambda>e. digits_val (fst e)) (filter (\<lambda>e. is_array_index (fst e)) ob) @
     filter (\<lambda>e. \<not> is_array_index (fst e)) ob"

definition obj_keys :: "'a jsobj \<Rightarrow> string list" where
  "obj_keys ob = map fst (obj_entries ob)"

definition obj_values :: "'a jsobj \<Rightarrow> 'a list" where
  "obj_values ob = map snd (obj_entries ob)"

text \<open>\<^verbatim>\<open>[...new Set(xs)]\<close>: the first occurrence of every element, in order.\<close>

fun uniq :: "'a list \<Rightarrow> 'a list" where
  "uniq [] = []"
| "uniq (x # xs) = x # filter (\<lambda>y. y \<noteq> x) (uniq xs)"

section \<open>The chart render surface\<close>

text \<open>
  A series of a live chart, with the entry the engine keeps for it in
  \<^verbatim>\<open>originalSeriesData\<close> (\<open>original\<close>, \<open>None\<close> while the series has no entry).
  \<open>data\<close> is the data array last given to the series (\<^verbatim>\<open>series.options.data\<close>).
\<close>

record series =
  name :: string
  data :: "jpoint list"
  visible :: bool
  showInLegend :: bool
  stype :: string
  original :: "jpoint list option"

text \<open>
  A live chart. \<open>xAxis0\<close> is \<^verbatim>\<open>chart.xAxis[0]\<close>: \<open>None\<close> when the chart has no x
  axis, \<open>Some None\<close> for an axis without categories. \<open>originalCategories\<close> is the
  property \<^verbatim>\<open>chart._originalCategories\<close>; \<open>redraws\<close> counts the calls of
  \<^verbatim>\<open>chart.redraw()\<close>.
\<close>

record chart =
  chart_id :: "string option"
  xAxis0 :: "jval list option option"
  originalCategories :: "jval list option"
  chart_series :: "series list"
  legend_enabled :: bool
  title :: "string option"
  subtitle :: "string option"
  yAxis_title :: "string option"
  redraws :: nat

definition categories :: "chart \<Rightarrow> jval list option" where
  "categories ch = (case xAxis0 ch of None \<Rightarrow> None | Some cs \<Rightarrow> cs)"

text \<open>\<^verbatim>\<open>series.setData(d, false)\<close>.\<close>

definition setData :: "jpoint list \<Rightarrow> series \<Rightarrow> series" where
  "setData d s = s\<lparr>data := d\<rparr>"

section \<open>Cross-tab rebuild\<close>

text \<open>
  A row of the cross-tab table: \<open>cells\<close> gives \<^verbatim>\<open>String(row[v])\<close> for the columns the
  row has, \<open>n\<close> is the count.
\<close>

record ctrow =
  cells :: "(string \<times> string) list"
  n :: rat

text \<open>\<^verbatim>\<open>String(row[v])\<close>; a missing column reads as \<^verbatim>\<open>undefined\<close>.\<close>

definition row_str :: "ctrow \<Rightarrow> string \<Rightarrow> string" where
  "row_str r v = (case map_of (cells r) v of None \<Rightarrow> ''undefined'' | Some s \<Rightarrow> s)"

text \<open>
  The configuration of a cross-tab. \<open>stackOrder\<close> and \<open>xOrder\<close> are empty when the
  configuration has none; \<open>filterVars\<close> is a list.
\<close>

record ctconfig =
  xVar :: string
  stackVar :: string
  filterVars :: "string list"
  stackedType :: string
  stackOrder :: "string list"
  xOrder :: "string list"

record crossTabInfo =
  ct_data :: "ctrow list option"
  ct_config :: "ctconfig option"

text \<open>The discrete selections by filter variable (\<^verbatim>\<open>filters\<close>).\<close>

type_synonym filters = "string list jsobj"

text \<open>
  The labels that mean "do not filter". The last two are the UTF-8 bytes of the
  Japanese and the Chinese label.
\<close>

definition allLabels :: "string list" where
  "allLabels = [''all'', ''alle'', ''tous'', ''todo'', ''tutti'',
     [CHR 0xE3, CHR 0x81, CHR 0x99, CHR 0xE3, CHR 0x81, CHR 0xB9, CHR 0xE3, CHR 0x81, CHR 0xA6],
     [CHR 0xE5, CHR 0x85, CHR 0xA8, CHR 0xE9, CHR 0x83, CHR 0xA8]]"

definition hasAllOption :: "string list \<Rightarrow> bool" where
  "hasAllOption selectedValues = list_ex (\<lambda>v. toLowerCase v \<in> set allLabels) selectedValues"

text \<open>Step 1: the rows that pass every active filter variable.\<close>

fun filterRows :: "filters \<Rightarrow> string list \<Rightarrow> ctrow list \<Rightarrow> ctrow list" where
  "filterRows fs [] filteredData = filteredData"
| "filterRows fs (filterVar # fvs) filteredData =
     (case obj_get fs filterVar of
        None \<Rightarrow> filterRows fs fvs filteredData
      | Some selectedValues \<Rightarrow>
          if selectedValues \<noteq> [] then
            (if hasAllOption selectedValues then filterRows fs fvs filteredData
             else filterRows fs fvs
                    (filter (\<lambda>row. row_str row filterVar \<in> set selectedValues) filteredData))
          else filterRows fs fvs filteredData)"

text \<open>Step 2: the counts summed by the key \<^verbatim>\<open>xVal + '|||' + stackVal\<close>.\<close>

record sumcell =
  xVal :: string
  stackVal :: string
  cnt :: rat

definition sum_row :: "ctconfig \<Rightarrow> sumcell jsobj \<Rightarrow> ctrow \<Rightarrow> sumcell jsobj" where
  "sum_row cfg summed row =
     (let x = row_str row (xVar cfg); s = row_str row (stackVar cfg);
          key = x @ ''|||'' @ s
      in case obj_get summed key of
           None \<Rightarrow> obj_set summed key \<lparr>xVal = x, stackVal = s, cnt = 0 + n row\<rparr>
         | Some c \<Rightarrow> obj_set summed key (c\<lparr>cnt := cnt c + n row\<rparr>))"

definition summedOf :: "ctconfig \<Rightarrow> ctrow list \<Rightarrow> sumcell jsobj" where
  "summedOf cfg rows = foldl (sum_row cfg) [] rows"

text \<open>
  Step 3: the summed counts organised by x value, then by stack value. The test
  \<^verbatim>\<open>!byX[item.xVal]\<close> and the lookups of Step 5 find an inherited member under a key that is
  a name of a member of \<^verbatim>\<open>Object.prototype\<close>; the definitions follow the code on the x
  and stack values that are plain keys.
\<close>

definition byX_add :: "rat jsobj jsobj \<Rightarrow> sumcell \<Rightarrow> rat jsobj jsobj" where
  "byX_add byX item =
     (case obj_get byX (xVal item) of
        None \<Rightarrow> obj_set byX (xVal item) [(stackVal item, cnt item)]
      | Some inner \<Rightarrow> obj_set byX (xVal item) (obj_set inner (stackVal item) (cnt item)))"

definition byXOf :: "sumcell jsobj \<Rightarrow> rat jsobj jsobj" where
  "byXOf summed = foldl byX_add [] (obj_values summed)"

text \<open>Step 4: the total of every x bucket.\<close>

definition xTotalsOf :: "rat jsobj jsobj \<Rightarrow> rat jsobj" where
  "xTotalsOf byX =
     foldl (\<lambda>t x. case obj_get byX x of
                     None \<Rightarrow> t
                   | Some inner \<Rightarrow> obj_set t x (foldl (+) 0 (obj_values inner)))
       [] (obj_keys byX)"

text \<open>Step 5: the order of the categories and of the stack values.\<close>

definition orderedXOf :: "ctconfig \<Rightarrow> rat jsobj jsobj \<Rightarrow> string list" where
  "orderedXOf cfg byX = (if xOrder cfg \<noteq> [] then xOrder cfg else obj_keys byX)"

definition orderedStackOf :: "ctconfig \<Rightarrow> sumcell jsobj \<Rightarrow> string list" where
  "orderedStackOf cfg summed =
     (if stackOrder cfg \<noteq> [] then stackOrder cfg else uniq (map stackVal (obj_values summed)))"

text \<open>The value of one cell of the rebuilt chart.\<close>

definition cellValue :: "bool \<Rightarrow> rat jsobj jsobj \<Rightarrow> rat jsobj \<Rightarrow> string \<Rightarrow> string \<Rightarrow> rat" where
  "cellValue isPercent byX xTotals sv xv =
     (let count = (case obj_get byX xv of
                     None \<Rightarrow> 0
                   | Some inner \<Rightarrow>
                       (case obj_get inner sv of None \<Rightarrow> 0 | Some c \<Rightarrow> if c \<noteq> 0 then c else 0))
      in case obj_get xTotals xv of
           None \<Rightarrow> count
         | Some t \<Rightarrow> if isPercent \<and> t > 0 then (count / t) * 100 else count)"

text \<open>
  The data computed for every stack value, in the order of \<open>orderedStack\<close>: what
  \<^verbatim>\<open>rebuildFromCrossTab\<close> hands to \<^verbatim>\<open>setData\<close>.
\<close>

definition crossTabSeries :: "ctconfig \<Rightarrow> filters \<Rightarrow> ctrow list \<Rightarrow> (string \<times> rat list) list" where
  "crossTabSeries cfg fs rows =
     (let summed = summedOf cfg (filterRows fs (filterVars cfg) rows);
          byX = byXOf summed;
          xTotals = xTotalsOf byX;
          isPercent = (stackedType cfg = ''percent'')
      in map (\<lambda>sv. (sv, map (cellValue isPercent byX xTotals sv) (orderedXOf cfg byX)))
           (orderedStackOf cfg summed))"

definition crossTabCategories :: "ctconfig \<Rightarrow> filters \<Rightarrow> ctrow list \<Rightarrow> string list" where
  "crossTabCategories cfg fs rows =
     orderedXOf cfg (byXOf (summedOf cfg (filterRows fs (filterVars cfg) rows)))"

text \<open>The total of an x bucket after filtering, \<open>None\<close> for a bucket with no row.\<close>

definition crossTabTotal :: "ctconfig \<Rightarrow> filters \<Rightarrow> ctrow list \<Rightarrow> string \<Rightarrow> rat option" where
  "crossTabTotal cfg fs rows xv =
     obj_get (xTotalsOf (byXOf (summedOf cfg (filterRows fs (filterVars cfg) rows)))) xv"

text \<open>
  \<^verbatim>\<open>chart.series.find(s => s.name === stackVal)\<close>, else the series at the index of the
  stack value: the position of the series that receives the data, if any.
\<close>

definition find_index :: "('a \<Rightarrow> bool) \<Rightarrow> 'a list \<Rightarrow> nat option" where
  "find_index P xs = (if list_ex P xs then Some (length (takeWhile (\<lambda>x. \<not> P x) xs)) else None)"

definition target_series :: "series list \<Rightarrow> string \<Rightarrow> nat \<Rightarrow> nat option" where
  "target_series ss sv seriesIdx =
     (case find_index (\<lambda>s. name s = sv) ss of
        Some i \<Rightarrow> Some i
      | None \<Rightarrow> if seriesIdx < length ss then Some seriesIdx else None)"

fun emit_series :: "nat \<Rightarrow> (string \<times> rat list) list \<Rightarrow> series list \<Rightarrow> series list" where
  "emit_series seriesIdx [] ss = ss"
| "emit_series seriesIdx ((sv, seriesData) # rest) ss =
     emit_series (Suc seriesIdx) rest
       (case target_series ss sv seriesIdx of
          None \<Rightarrow> ss
        | Some i \<Rightarrow> ss[i := setData (map PNum seriesData) (ss ! i)])"

text \<open>
  \<^verbatim>\<open>rebuildFromCrossTab(chart, crossTabInfo, filters)\<close>: \<open>None\<close> when it returns
  \<^verbatim>\<open>false\<close> and leaves the chart alone, else the rebuilt chart.
\<close>

definition rebuildFromCrossTab :: "chart \<Rightarrow> crossTabInfo \<Rightarrow> filters \<Rightarrow> chart option" where
  "rebuildFromCrossTab ch info fs =
     (case (ct_data info, ct_config info) of
        (Some rows, Some cfg) \<Rightarrow>
          Some (ch\<lparr>xAxis0 := (case xAxis0 ch of
                                 None \<Rightarrow> None
                               | Some _ \<Rightarrow> Some (Some (map JStr (crossTabCategories cfg fs rows)))),
                   chart_series := emit_series 0 (crossTabSeries cfg fs rows) (chart_series ch),
                   redraws := Suc (redraws ch)\<rparr>)
      | _ \<Rightarrow> None)"

section \<open>Controls\<close>

datatype inputType = Select | Checkbox | Radio | Switch | Slider | Text | Number | ButtonGroup

text \<open>
  An entry of \<^verbatim>\<open>inputState\<close>. The field \<^verbatim>\<open>value\<close> of the source holds a boolean for
  a switch, a number for a slider or a number input and a string for a text input; the
  record has one typed field for each (\<open>bvalue\<close>, \<open>nvalue\<close>, \<open>svalue\<close>), \<open>None\<close> being
  \<^verbatim>\<open>NaN\<close>. \<open>toggleSeries\<close> is \<open>None\<close> for \<^verbatim>\<open>null\<close>.
\<close>

record control =
  filterVar :: string
  inputType :: inputType
  selected :: "string list"
  bvalue :: bool
  nvalue :: "rat option"
  svalue :: string
  cmin :: "rat option"
  cmax :: "rat option"
  cstep :: rat
  labels :: "jval list option"
  toggleSeries :: "string option"
  override :: bool

type_synonym inputState = "control jsobj"

record sliderInfo =
  sl_value :: "rat option"
  sl_min :: "rat option"
  sl_max :: "rat option"
  sl_step :: rat
  sl_labels :: "jval list option"

text \<open>The filters collected from the controls at the start of \<^verbatim>\<open>applyAllFilters\<close>.\<close>

record collected =
  filters :: filters
  sliderFilters :: "sliderInfo jsobj"
  switchFilters :: "bool jsobj"
  textFilters :: "string jsobj"
  numberFilters :: "rat option jsobj"
  periodFilters :: "string list jsobj"

definition collect_one :: "collected \<Rightarrow> control \<Rightarrow> collected" where
  "collect_one c state =
     (if inputType state = Slider then
        c\<lparr>sliderFilters := obj_set (sliderFilters c) (filterVar state)
             \<lparr>sl_value = nvalue state, sl_min = cmin state, sl_max = cmax state,
              sl_step = (if cstep state = 0 then 1 else cstep state),
              sl_labels = labels state\<rparr>\<rparr>
      else if inputType state = Switch then
        c\<lparr>switchFilters := obj_set (switchFilters c) (filterVar state) (bvalue state)\<rparr>
      else if inputType state = Text then
        (if svalue state \<noteq> [] \<and> trim (svalue state) \<noteq> [] then
           c\<lparr>textFilters := obj_set (textFilters c) (filterVar state)
                (toLowerCase (trim (svalue state)))\<rparr>
         else c)
      else if inputType state = Number then
        c\<lparr>numberFilters := obj_set (numberFilters c) (filterVar state) (nvalue state)\<rparr>
      else if filterVar state = ''period'' then
        c\<lparr>periodFilters := obj_set (periodFilters c) (filterVar state) (selected state)\<rparr>
      else
        c\<lparr>filters := obj_set (filters c) (filterVar state) (selected state)\<rparr>)"

definition collect :: "inputState \<Rightarrow> collected" where
  "collect st =
     foldl collect_one
       \<lparr>filters = [], sliderFilters = [], switchFilters = [], textFilters = [],
        numberFilters = [], periodFilters = []\<rparr>
       (obj_values st)"

section \<open>Visible categories\<close>

text \<open>The test of one category against a period preset that is not an "All" preset.\<close>

definition period_keep :: "string \<Rightarrow> jval \<Rightarrow> bool" where
  "period_keep periodValue cat =
     (case parseFloat cat of
        None \<Rightarrow> True
      | Some catNum \<Rightarrow>
          if str_includes periodValue ''Pre-COVID'' \<or> str_includes periodValue ''2015-2019''
          then catNum \<ge> 2015 \<and> catNum \<le> 2019
          else if str_includes periodValue ''Post-COVID'' \<or> str_includes periodValue ''2020''
          then catNum \<ge> 2020
          else True)"

definition applyPeriod :: "jval list \<Rightarrow> string list \<Rightarrow> nat list \<Rightarrow> nat list" where
  "applyPeriod originalCats sel visibleCategoryIndices =
     (case sel of
        [] \<Rightarrow> visibleCategoryIndices
      | periodValue # _ \<Rightarrow>
          if periodValue \<noteq> [] \<and> \<not> str_includes periodValue ''All''
          then filter (\<lambda>idx. period_keep periodValue (originalCats ! idx)) visibleCategoryIndices
          else visibleCategoryIndices)"

definition isCategoryFilter :: "string list \<Rightarrow> string list \<Rightarrow> bool" where
  "isCategoryFilter selectedStrings categoryStrings =
     (list_ex (\<lambda>v. v \<in> set categoryStrings) selectedStrings \<or>
      list_ex (\<lambda>c. c \<in> set selectedStrings) categoryStrings)"

definition applyCategoryFilter :: "jval list \<Rightarrow> string list \<Rightarrow> nat list \<Rightarrow> nat list" where
  "applyCategoryFilter originalCats selectedValues visibleCategoryIndices =
     (if selectedValues \<noteq> [] then
        (if isCategoryFilter selectedValues (map String originalCats)
         then filter (\<lambda>idx. String (originalCats ! idx) \<in> set selectedValues) visibleCategoryIndices
         else visibleCategoryIndices)
      else visibleCategoryIndices)"

text \<open>
  The label at the position of the slider: \<^verbatim>\<open>labels[Math.round((value - min) / step)]\<close>,
  \<open>None\<close> when the index is \<^verbatim>\<open>NaN\<close> or out of range.
\<close>

definition startLabelOf :: "sliderInfo \<Rightarrow> jval list \<Rightarrow> jval option" where
  "startLabelOf info ls =
     (case (sl_value info, sl_min info) of
        (Some v, Some m) \<Rightarrow>
          (let labelIdx = Math_round ((v - m) / (if sl_step info = 0 then 1 else sl_step info))
           in if 0 \<le> labelIdx \<and> nat labelIdx < length ls then Some (ls ! nat labelIdx) else None)
      | _ \<Rightarrow> None)"

definition applySlider :: "jval list \<Rightarrow> sliderInfo \<Rightarrow> nat list \<Rightarrow> nat list" where
  "applySlider originalCats info visibleCategoryIndices =
     (if (case sl_labels info of None \<Rightarrow> False | Some ls \<Rightarrow> ls \<noteq> []) then
        (case startLabelOf info (the (sl_labels info)) of
           None \<Rightarrow> visibleCategoryIndices
         | Some startLabel \<Rightarrow>
             if truthy startLabel then
               (case find_index (\<lambda>cat. String cat = String startLabel) originalCats of
                  None \<Rightarrow> visibleCategoryIndices
                | Some startCategoryIdx \<Rightarrow>
                    filter (\<lambda>idx. idx \<ge> startCategoryIdx) visibleCategoryIndices)
             else visibleCategoryIndices)
      else
        filter (\<lambda>idx. case parseFloat (originalCats ! idx) of
                         None \<Rightarrow> True
                       | Some catNum \<Rightarrow>
                           (case sl_value info of None \<Rightarrow> False | Some v \<Rightarrow> catNum \<ge> v))
          visibleCategoryIndices)"

text \<open>
  The indices of the categories that stay visible: all of them, narrowed by the period
  presets, then by the discrete filters, then by the sliders.
\<close>

definition visibleIndices :: "collected \<Rightarrow> jval list \<Rightarrow> nat list" where
  "visibleIndices c originalCats =
     foldl (\<lambda>vis info. applySlider originalCats info vis)
       (foldl (\<lambda>vis sel. applyCategoryFilter originalCats sel vis)
          (foldl (\<lambda>vis sel. applyPeriod originalCats sel vis)
             [0 ..< length originalCats]
             (obj_values (periodFilters c)))
          (obj_values (filters c)))
       (obj_values (sliderFilters c))"

section \<open>Metric switching\<close>

text \<open>
  A row of \<^verbatim>\<open>window.dashboardrMetricData\<close>: the fields \<^verbatim>\<open>country\<close>, \<^verbatim>\<open>metric\<close> and
  \<^verbatim>\<open>value\<close>, and the other columns (among them the time column) in \<open>cols\<close>.
\<close>

record mrow =
  country :: string
  metric :: string
  cols :: "(string \<times> jval) list"
  mvalue :: jpoint

text \<open>
  The data the page supplies: \<^verbatim>\<open>window.dashboardrCrossTab\<close>,
  \<^verbatim>\<open>window.dashboardrMetricData\<close> and \<^verbatim>\<open>window.dashboardrTimeVar\<close>, each \<open>None\<close>
  when the page does not define it.
\<close>

record env =
  crossTab :: "crossTabInfo jsobj option"
  metricData :: "mrow list option"
  timeVarCfg :: "string option"

text \<open>The metric to switch to and the rows to read it from, when a switch takes place.\<close>

definition selectedMetricOf :: "env \<Rightarrow> filters \<Rightarrow> (string \<times> mrow list) option" where
  "selectedMetricOf e fs =
     (case obj_get fs ''metric'' of
        None \<Rightarrow> None
      | Some sel \<Rightarrow>
          (case metricData e of
             None \<Rightarrow> None
           | Some allData \<Rightarrow>
               (case sel of
                  [] \<Rightarrow> None
                | selectedMetric # _ \<Rightarrow>
                    if selectedMetric \<noteq> [] then Some (selectedMetric, allData) else None)))"

definition configuredTimeVar :: "env \<Rightarrow> string option" where
  "configuredTimeVar e =
     (case timeVarCfg e of None \<Rightarrow> None | Some v \<Rightarrow> if v \<noteq> [] then Some v else None)"

definition detectTimeVar :: "mrow \<Rightarrow> string option" where
  "detectTimeVar d =
     (if map_of (cols d) ''year'' \<noteq> None then Some ''year''
      else if map_of (cols d) ''decade'' \<noteq> None then Some ''decade''
      else if map_of (cols d) ''time'' \<noteq> None then Some ''time''
      else if map_of (cols d) ''date'' \<noteq> None then Some ''date''
      else None)"

text \<open>
  Reading \<^verbatim>\<open>allData[0].year\<close> of an empty table raises a \<^verbatim>\<open>TypeError\<close>; it is read
  only when no time variable is configured.
\<close>

definition metric_throws :: "env \<Rightarrow> filters \<Rightarrow> bool" where
  "metric_throws e fs =
     (case selectedMetricOf e fs of
        None \<Rightarrow> False
      | Some (m, allData) \<Rightarrow> configuredTimeVar e = None \<and> allData = [])"

definition timeVarOf :: "env \<Rightarrow> mrow list \<Rightarrow> string option" where
  "timeVarOf e allData =
     (case configuredTimeVar e of
        Some v \<Rightarrow> Some v
      | None \<Rightarrow> (case allData of [] \<Rightarrow> None | d # _ \<Rightarrow> detectTimeVar d))"

text \<open>
  \<^verbatim>\<open>xs.sort()\<close> with the default order: by the string of each element,
  \<^verbatim>\<open>undefined\<close> (\<open>None\<close>) last.
\<close>

definition js_sort :: "jval option list \<Rightarrow> jval option list" where
  "js_sort xs = map Some (sort_key String (List.map_filter id xs)) @ filter (\<lambda>x. x = None) xs"

definition timeValuesOf :: "jval list option \<Rightarrow> string option \<Rightarrow> mrow list \<Rightarrow> jval option list" where
  "timeValuesOf originalCats timeVar allData =
     (case originalCats of
        Some cats \<Rightarrow> map Some cats
      | None \<Rightarrow>
          (case timeVar of
             None \<Rightarrow> []
           | Some tv \<Rightarrow> js_sort (uniq (map (\<lambda>d. map_of (cols d) tv) allData))))"

definition metricNewData :: "string option \<Rightarrow> jval option list \<Rightarrow> mrow list \<Rightarrow> jpoint list" where
  "metricNewData timeVar timeValues countryData =
     map (\<lambda>timeVal.
            case find (\<lambda>d. case timeVar of None \<Rightarrow> False
                                           | Some tv \<Rightarrow> map_of (cols d) tv = timeVal) countryData of
              None \<Rightarrow> PNull
            | Some point \<Rightarrow> mvalue point)
       timeValues"

text \<open>
  The metric branch for one series: the rebuilt data goes to the series and replaces
  its entry in \<^verbatim>\<open>originalSeriesData\<close>.
\<close>

definition metricSeries ::
  "string \<Rightarrow> mrow list \<Rightarrow> string option \<Rightarrow> jval option list \<Rightarrow> series \<Rightarrow> series" where
  "metricSeries selectedMetric allData timeVar timeValues s =
     (let countryData = filter (\<lambda>d. country d = name s \<and> metric d = selectedMetric) allData
      in if countryData \<noteq> [] then
           (let newData = metricNewData timeVar timeValues countryData
            in (setData newData s)\<lparr>original := Some newData\<rparr>)
         else s)"

definition metricSwitch :: "env \<Rightarrow> filters \<Rightarrow> jval list option \<Rightarrow> chart \<Rightarrow> chart" where
  "metricSwitch e fs originalCats ch =
     (case selectedMetricOf e fs of
        None \<Rightarrow> ch
      | Some (selectedMetric, allData) \<Rightarrow>
          (let timeVar = timeVarOf e allData;
               timeValues = timeValuesOf originalCats timeVar allData
           in ch\<lparr>chart_series :=
                     map (metricSeries selectedMetric allData timeVar timeValues) (chart_series ch),
                   title := Some (selectedMetric @ '' by Country''),
                   subtitle := Some ''Trends over time'',
                   yAxis_title := Some selectedMetric\<rparr>))"

section \<open>Legend and chart type\<close>

definition legendSwitch :: "inputState \<Rightarrow> chart \<Rightarrow> chart" where
  "legendSwitch st ch =
     foldl (\<lambda>c state. if inputType state = Switch \<and> filterVar state = ''show_legend''
                         then c\<lparr>legend_enabled := bvalue state\<rparr> else c)
       ch (obj_values st)"

definition typeMap :: "string \<Rightarrow> string" where
  "typeMap chartType =
     (if chartType = ''Line'' then ''line''
      else if chartType = ''Area'' then ''area''
      else if chartType = ''Column'' then ''column''
      else ''line'')"

definition chartTypeChange :: "filters \<Rightarrow> chart \<Rightarrow> chart" where
  "chartTypeChange fs ch =
     (case obj_get fs ''chart_type'' of
        None \<Rightarrow> ch
      | Some sel \<Rightarrow>
          (case sel of
             [] \<Rightarrow> ch
           | chartType # _ \<Rightarrow>
               if chartType \<noteq> [] then
                 ch\<lparr>chart_series := map (\<lambda>s. s\<lparr>stype := typeMap chartType\<rparr>) (chart_series ch)\<rparr>
               else ch))"

section \<open>Series visibility and data\<close>

definition switchHiddenSeries :: "inputState \<Rightarrow> string list" where
  "switchHiddenSeries st =
     List.map_filter
       (\<lambda>state. case toggleSeries state of
                   None \<Rightarrow> None
                 | Some t \<Rightarrow> if inputType state = Switch \<and> t \<noteq> [] \<and> \<not> bvalue state
                             then Some t else None)
       (obj_values st)"

definition switchShownSeries :: "inputState \<Rightarrow> string list" where
  "switchShownSeries st =
     List.map_filter
       (\<lambda>state. case toggleSeries state of
                   None \<Rightarrow> None
                 | Some t \<Rightarrow> if inputType state = Switch \<and> t \<noteq> [] \<and> bvalue state \<and> override state
                             then Some t else None)
       (obj_values st)"

text \<open>A text filter that applies to the series names and does not match this one.\<close>

definition textHides :: "string jsobj \<Rightarrow> string list \<Rightarrow> string \<Rightarrow> bool" where
  "textHides tf seriesNames seriesName =
     list_ex (\<lambda>searchText.
                list_ex (\<lambda>nm. str_includes (toLowerCase nm) searchText) seriesNames \<and>
                \<not> str_includes (toLowerCase seriesName) searchText)
       (obj_values tf)"

definition isSeriesFilter :: "string list \<Rightarrow> string list \<Rightarrow> bool" where
  "isSeriesFilter selectedValues seriesNames =
     (list_ex (\<lambda>v. v \<in> set seriesNames) selectedValues \<or>
      list_ex (\<lambda>nm. nm \<in> set selectedValues) seriesNames)"

text \<open>A discrete filter that applies to the series names and does not select this one.\<close>

definition filterHides :: "filters \<Rightarrow> string list \<Rightarrow> string \<Rightarrow> bool" where
  "filterHides fs seriesNames seriesName =
     list_ex (\<lambda>selectedValues.
                selectedValues \<noteq> [] \<and> isSeriesFilter selectedValues seriesNames \<and>
                seriesName \<notin> set selectedValues)
       (obj_values fs)"

definition showSeries :: "collected \<Rightarrow> string list \<Rightarrow> string \<Rightarrow> bool" where
  "showSeries c seriesNames seriesName =
     (\<not> textHides (textFilters c) seriesNames seriesName \<and>
      \<not> filterHides (filters c) seriesNames seriesName)"

text \<open>
  The test of a point of a chart with a numeric x axis against one slider:
  \<^verbatim>\<open>null\<close> goes, a point object whose \<^verbatim>\<open>x\<close> is below the value goes.
\<close>

fun sliderKeepsPoint :: "sliderInfo \<Rightarrow> jpoint \<Rightarrow> bool" where
  "sliderKeepsPoint info PNull = False"
| "sliderKeepsPoint info (PObj (Some px) py) =
     (case sl_value info of None \<Rightarrow> True | Some v \<Rightarrow> \<not> px < v)"
| "sliderKeepsPoint info p = True"

definition filterData ::
  "collected \<Rightarrow> jval list option \<Rightarrow> bool \<Rightarrow> nat list \<Rightarrow> series \<Rightarrow> series" where
  "filterData c originalCats hasNumericXAxis visibleCategoryIndices s =
     (case original s of
        None \<Rightarrow> s
      | Some od \<Rightarrow>
          (case originalCats of
             Some cats \<Rightarrow>
               setData (map (\<lambda>idx. if idx < length od then od ! idx else PNull)
                          visibleCategoryIndices) s
           | None \<Rightarrow>
               if hasNumericXAxis then
                 setData (foldl (\<lambda>filteredData info. filter (sliderKeepsPoint info) filteredData)
                            od (obj_values (sliderFilters c))) s
               else s))"

definition hideSeries :: "series \<Rightarrow> series" where
  "hideSeries s = s\<lparr>visible := False, showInLegend := False\<rparr>"

definition filterSeries ::
  "inputState \<Rightarrow> collected \<Rightarrow> string list \<Rightarrow> jval list option \<Rightarrow> bool \<Rightarrow> nat list \<Rightarrow>
   series \<Rightarrow> series" where
  "filterSeries st c seriesNames originalCats hasNumericXAxis visibleCategoryIndices s =
     (if name s \<in> set (switchHiddenSeries st) then hideSeries s
      else if name s \<in> set (switchShownSeries st) then
        filterData c originalCats hasNumericXAxis visibleCategoryIndices
          (s\<lparr>visible := True, showInLegend := True\<rparr>)
      else if \<not> showSeries c seriesNames (name s) then hideSeries s
      else
        filterData c originalCats hasNumericXAxis visibleCategoryIndices
          (s\<lparr>visible := True, showInLegend := True\<rparr>))"

section \<open>Filter application\<close>

text \<open>The first run on a chart keeps a copy of its categories.\<close>

definition captureCategories :: "chart \<Rightarrow> chart" where
  "captureCategories ch =
     (case originalCategories ch of
        Some cs \<Rightarrow> ch
      | None \<Rightarrow>
          (case categories ch of
             None \<Rightarrow> ch
           | Some cs \<Rightarrow> ch\<lparr>originalCategories := Some cs\<rparr>))"

definition originalCategoriesOf :: "chart \<Rightarrow> jval list option" where
  "originalCategoriesOf ch =
     (case originalCategories ch of Some cs \<Rightarrow> Some cs | None \<Rightarrow> categories ch)"

text \<open>
  The test for a chart with a numeric x axis reads the live points of the first series
  (\<^verbatim>\<open>chart.series[0].data[0].x\<close>). The chart library builds a point object with a
  numeric \<^verbatim>\<open>x\<close> for every entry of the data array it was given, \<^verbatim>\<open>null\<close> entries
  included, so the test holds when the first series has an entry.
\<close>

definition hasNumericXAxis :: "chart \<Rightarrow> bool" where
  "hasNumericXAxis ch =
     (originalCategoriesOf ch = None \<and>
      (case chart_series ch of [] \<Rightarrow> False | s # _ \<Rightarrow> data s \<noteq> []))"

definition newCategoriesOf :: "jval list option \<Rightarrow> nat list \<Rightarrow> jval list" where
  "newCategoriesOf originalCats visibleCategoryIndices =
     (case originalCats of
        None \<Rightarrow> []
      | Some cats \<Rightarrow> map (\<lambda>idx. cats ! idx) visibleCategoryIndices)"

text \<open>
  The ordinary path of one chart, after the cross-tab test. \<^verbatim>\<open>setCategories\<close> on a
  chart without x axis raises a \<^verbatim>\<open>TypeError\<close>.
\<close>

definition filterChart :: "env \<Rightarrow> inputState \<Rightarrow> collected \<Rightarrow> chart \<Rightarrow> error + chart" where
  "filterChart e st c ch0 =
     (let ch = captureCategories ch0;
          originalCats = originalCategoriesOf ch;
          hasNum = hasNumericXAxis ch;
          seriesNames = map name (chart_series ch);
          visibleCategoryIndices =
            (case originalCats of None \<Rightarrow> [] | Some cats \<Rightarrow> visibleIndices c cats);
          newCategories = newCategoriesOf originalCats visibleCategoryIndices;
          ch1 = chartTypeChange (filters c) (legendSwitch st ch);
          ch2 = metricSwitch e (filters c) originalCats ch1;
          ch3 = ch2\<lparr>chart_series :=
                      map (filterSeries st c seriesNames originalCats hasNum visibleCategoryIndices)
                        (chart_series ch2)\<rparr>
      in if metric_throws e (filters c) then Inl TypeError
         else if originalCats \<noteq> None \<and> newCategories \<noteq> [] then
           (case xAxis0 ch3 of
              None \<Rightarrow> Inl TypeError
            | Some _ \<Rightarrow> Inr (ch3\<lparr>xAxis0 := Some (Some newCategories),
                                  redraws := Suc (redraws ch3)\<rparr>))
         else Inr (ch3\<lparr>redraws := Suc (redraws ch3)\<rparr>))"

text \<open>The cross-tab information of a chart, if the page has one for its id.\<close>

definition crossTabInfoOf :: "env \<Rightarrow> chart \<Rightarrow> crossTabInfo option" where
  "crossTabInfoOf e ch =
     (case chart_id ch of
        None \<Rightarrow> None
      | Some cid \<Rightarrow>
          if cid = [] then None
          else (case crossTab e of None \<Rightarrow> None | Some tab \<Rightarrow> obj_get tab cid))"

text \<open>The body of \<^verbatim>\<open>charts.forEach\<close> in \<^verbatim>\<open>applyAllFilters\<close>.\<close>

definition applyChart :: "env \<Rightarrow> inputState \<Rightarrow> chart \<Rightarrow> error + chart" where
  "applyChart e st ch =
     (let c = collect st
      in case crossTabInfoOf e ch of
           None \<Rightarrow> filterChart e st c ch
         | Some info \<Rightarrow>
             (case rebuildFromCrossTab ch info (filters c) of
                Some ch' \<Rightarrow> Inr ch'
              | None \<Rightarrow> filterChart e st c ch))"

text \<open>
  \<^verbatim>\<open>applyAllFilters\<close> on the live charts; an error ends the run. With no chart the
  function only schedules a retry.
\<close>

fun applyCharts :: "env \<Rightarrow> inputState \<Rightarrow> chart list \<Rightarrow> error + chart list" where
  "applyCharts e st [] = Inr []"
| "applyCharts e st (ch # chs) =
     (case applyChart e st ch of
        Inl err \<Rightarrow> Inl err
      | Inr ch' \<Rightarrow>
          (case applyCharts e st chs of
             Inl err \<Rightarrow> Inl err
           | Inr chs' \<Rightarrow> Inr (ch' # chs')))"

definition applyAllFilters :: "env \<Rightarrow> inputState \<Rightarrow> chart list \<Rightarrow> error + chart list" where
  "applyAllFilters e st charts = applyCharts e st charts"

text \<open>
  \<^verbatim>\<open>storeOriginalData\<close>: a series without an entry in \<^verbatim>\<open>originalSeriesData\<close> gets a
  copy of its data; an entry that exists is left alone.
\<close>

definition storeSeries :: "series \<Rightarrow> series" where
  "storeSeries s = (case original s of None \<Rightarrow> s\<lparr>original := Some (data s)\<rparr> | Some _ \<Rightarrow> s)"

definition storeOriginalData :: "chart list \<Rightarrow> chart list" where
  "storeOriginalData charts =
     map (\<lambda>ch. ch\<lparr>chart_series := map storeSeries (chart_series ch)\<rparr>) charts"

section \<open>Reset\<close>

text \<open>
  An entry of \<^verbatim>\<open>defaultValues\<close>, with one typed field for each kind of default, as in
  \<open>control\<close>.
\<close>

record dflt =
  d_selected :: "string list"
  d_bvalue :: bool
  d_nvalue :: "rat option"
  d_svalue :: string

text \<open>
  What the engine reads and writes of a DOM element: whether it is a \<^verbatim>\<open>SELECT\<close>, the
  options of a select or the checkboxes, radios or buttons of a group (each with its
  value and whether it is selected, checked or active), \<^verbatim>\<open>checked\<close>, \<^verbatim>\<open>value\<close>, the
  attributes \<^verbatim>\<open>min\<close> and \<^verbatim>\<open>max\<close> as \<^verbatim>\<open>parseFloat\<close> reads them, the style property
  \<^verbatim>\<open>--slider-percent\<close> as a number (\<open>None\<close> when it is not finite) and
  \<^verbatim>\<open>textContent\<close>.
\<close>

record element =
  is_select :: bool
  items :: "(string \<times> bool) list"
  checked :: bool
  evalue :: string
  attr_min :: "rat option"
  attr_max :: "rat option"
  track :: "rat option"
  textContent :: string

text \<open>An instance of the dropdown library: the choices it offers and the active ones.\<close>

record choices =
  available :: "string list"
  active :: "string list"

definition removeActiveItems :: "choices \<Rightarrow> choices" where
  "removeActiveItems ci = ci\<lparr>active := []\<rparr>"

definition setChoiceByValue :: "string list \<Rightarrow> choices \<Rightarrow> choices" where
  "setChoiceByValue vs ci =
     ci\<lparr>active := active ci @
            filter (\<lambda>v. v \<in> set (available ci) \<and> v \<notin> set (active ci)) (uniq vs)\<rparr>"

record page =
  inputState :: inputState
  defaultValues :: "dflt jsobj"
  elements :: "element jsobj"
  choicesInstances :: "choices jsobj"
  charts :: "chart list"

definition setItems :: "string list \<Rightarrow> element \<Rightarrow> element" where
  "setItems sel el = el\<lparr>items := map (\<lambda>it. (fst it, fst it \<in> set sel)) (items el)\<rparr>"

text \<open>\<^verbatim>\<open>updateSliderTrack\<close>, with the value just written to the element.\<close>

definition updateSliderTrack :: "rat option \<Rightarrow> element \<Rightarrow> element" where
  "updateSliderTrack v el =
     (let mn = (case attr_min el of None \<Rightarrow> 0 | Some m \<Rightarrow> m);
          mx = (case attr_max el of None \<Rightarrow> 100 | Some m \<Rightarrow> if m = 0 then 100 else m)
      in el\<lparr>track := (case v of
                         None \<Rightarrow> None
                       | Some x \<Rightarrow> if mx = mn then None
                                   else Some (((x - mn) / (mx - mn)) * 100))\<rparr>)"

text \<open>
  The text \<^verbatim>\<open>updateSliderDisplay\<close> shows: the label at the position of the value, else
  the value. \<open>fmt\<close> is the conversion of a number to a string.
\<close>

definition sliderDisplayText ::
  "(rat option \<Rightarrow> string) \<Rightarrow> jval list option \<Rightarrow> rat option \<Rightarrow> rat option \<Rightarrow> rat \<Rightarrow> string" where
  "sliderDisplayText fmt lbls v mn step =
     (case lbls of
        None \<Rightarrow> fmt v
      | Some ls \<Rightarrow>
          if ls = [] then fmt v
          else
            (case (v, mn) of
               (Some x, Some m) \<Rightarrow>
                 if step = 0 then fmt v
                 else (let idx = Math_round ((x - m) / step)
                       in if 0 \<le> idx \<and> nat idx < length ls then String (ls ! nat idx) else fmt v)
             | _ \<Rightarrow> fmt v))"

definition updateSliderDisplay ::
  "(rat option \<Rightarrow> string) \<Rightarrow> string \<Rightarrow> jval list option \<Rightarrow> rat option \<Rightarrow> rat option \<Rightarrow> rat \<Rightarrow>
   element jsobj \<Rightarrow> element jsobj" where
  "updateSliderDisplay fmt inputId lbls v mn step els =
     (case obj_get els (inputId @ ''_value'') of
        None \<Rightarrow> els
      | Some valueDisplay \<Rightarrow>
          obj_set els (inputId @ ''_value'')
            (valueDisplay\<lparr>textContent := sliderDisplayText fmt lbls v mn step\<rparr>))"

text \<open>The body of \<^verbatim>\<open>targets.forEach\<close> in \<^verbatim>\<open>resetFilters\<close>.\<close>

definition resetOne :: "(rat option \<Rightarrow> string) \<Rightarrow> page \<Rightarrow> string \<Rightarrow> page" where
  "resetOne fmt pg inputId =
     (case obj_get (defaultValues pg) inputId of
        None \<Rightarrow> pg
      | Some defaults \<Rightarrow>
     (case obj_get (inputState pg) inputId of
        None \<Rightarrow> pg
      | Some state \<Rightarrow>
     (case obj_get (elements pg) inputId of
        None \<Rightarrow> pg
      | Some el \<Rightarrow>
          if inputType state = Select then
            (case obj_get (choicesInstances pg) inputId of
               Some ci \<Rightarrow>
                 pg\<lparr>choicesInstances := obj_set (choicesInstances pg) inputId
                        (if d_selected defaults \<noteq> []
                         then setChoiceByValue (d_selected defaults) (removeActiveItems ci)
                         else removeActiveItems ci),
                    inputState := obj_set (inputState pg) inputId
                        (state\<lparr>selected := d_selected defaults\<rparr>)\<rparr>
             | None \<Rightarrow>
                 pg\<lparr>elements := (if is_select el
                        then obj_set (elements pg) inputId (setItems (d_selected defaults) el)
                        else elements pg),
                    inputState := obj_set (inputState pg) inputId
                        (state\<lparr>selected := d_selected defaults\<rparr>)\<rparr>)
          else if inputType state = Checkbox \<or> inputType state = Radio
                  \<or> inputType state = ButtonGroup then
            pg\<lparr>elements := obj_set (elements pg) inputId (setItems (d_selected defaults) el),
               inputState := obj_set (inputState pg) inputId
                   (state\<lparr>selected := d_selected defaults\<rparr>)\<rparr>
          else if inputType state = Switch then
            pg\<lparr>elements := obj_set (elements pg) inputId (el\<lparr>checked := d_bvalue defaults\<rparr>),
               inputState := obj_set (inputState pg) inputId
                   (state\<lparr>bvalue := d_bvalue defaults,
                          selected := (if d_bvalue defaults then [''true''] else [''false''])\<rparr>)\<rparr>
          else if inputType state = Slider then
            pg\<lparr>elements :=
                 updateSliderDisplay fmt inputId (labels state) (d_nvalue defaults) (cmin state)
                   (cstep state)
                   (obj_set (elements pg) inputId
                      (updateSliderTrack (d_nvalue defaults)
                         (el\<lparr>evalue := fmt (d_nvalue defaults)\<rparr>))),
               inputState := obj_set (inputState pg) inputId
                   (state\<lparr>nvalue := d_nvalue defaults, selected := [fmt (d_nvalue defaults)]\<rparr>)\<rparr>
          else if inputType state = Text then
            pg\<lparr>elements := obj_set (elements pg) inputId (el\<lparr>evalue := d_svalue defaults\<rparr>),
               inputState := obj_set (inputState pg) inputId
                   (state\<lparr>svalue := d_svalue defaults, selected := [d_svalue defaults]\<rparr>)\<rparr>
          else
            pg\<lparr>elements := obj_set (elements pg) inputId (el\<lparr>evalue := fmt (d_nvalue defaults)\<rparr>),
               inputState := obj_set (inputState pg) inputId
                   (state\<lparr>nvalue := d_nvalue defaults, selected := [fmt (d_nvalue defaults)]\<rparr>)\<rparr>)))"

text \<open>\<^verbatim>\<open>s.split(',')\<close>.\<close>

fun split_commas :: "string \<Rightarrow> string list" where
  "split_commas [] = [[]]"
| "split_commas (c # s) =
     (if c = CHR '','' then [] # split_commas s
      else (case split_commas s of [] \<Rightarrow> [[c]] | w # ws \<Rightarrow> (c # w) # ws))"

definition resetTargets :: "string \<Rightarrow> page \<Rightarrow> string list" where
  "resetTargets targetsAttr pg =
     (if targetsAttr = ''all'' then obj_keys (defaultValues pg)
      else map trim (split_commas targetsAttr))"

text \<open>The controls and the elements after the loop of \<^verbatim>\<open>resetFilters\<close>.\<close>

definition resetControls :: "(rat option \<Rightarrow> string) \<Rightarrow> string \<Rightarrow> page \<Rightarrow> page" where
  "resetControls fmt targetsAttr pg = foldl (resetOne fmt) pg (resetTargets targetsAttr pg)"

text \<open>
  \<^verbatim>\<open>resetFilters(button)\<close>; \<open>targetsAttr\<close> is \<^verbatim>\<open>button.dataset.targets\<close>, and a button
  without the attribute raises a \<^verbatim>\<open>TypeError\<close>.
\<close>

definition resetFilters ::
  "(rat option \<Rightarrow> string) \<Rightarrow> env \<Rightarrow> string option \<Rightarrow> page \<Rightarrow> error + page" where
  "resetFilters fmt e targetsAttr pg =
     (case targetsAttr of
        None \<Rightarrow> Inl TypeError
      | Some a \<Rightarrow>
          (let pg' = resetControls fmt a pg
           in case applyAllFilters e (inputState pg') (charts pg') of
                Inl err \<Rightarrow> Inl err
              | Inr chs \<Rightarrow> Inr (pg'\<lparr>charts := chs\<rparr>)))"

section \<open>Operations of the engine\<close>

text \<open>
  What can happen to a page after its controls are initialised: the original data is
  stored, the filters are applied, a reset button is pressed, or the listener of a
  control writes the new state of its control and applies the filters.
\<close>

datatype operation =
    OpStore
  | OpApply
  | OpReset "string option"
  | OpChange string control

definition applyPage :: "env \<Rightarrow> page \<Rightarrow> error + page" where
  "applyPage e pg =
     (case applyAllFilters e (inputState pg) (charts pg) of
        Inl err \<Rightarrow> Inl err
      | Inr chs \<Rightarrow> Inr (pg\<lparr>charts := chs\<rparr>))"

fun run_op :: "(rat option \<Rightarrow> string) \<Rightarrow> env \<Rightarrow> operation \<Rightarrow> page \<Rightarrow> error + page" where
  "run_op fmt e OpStore pg = Inr (pg\<lparr>charts := storeOriginalData (charts pg)\<rparr>)"
| "run_op fmt e OpApply pg = applyPage e pg"
| "run_op fmt e (OpReset targetsAttr) pg = resetFilters fmt e targetsAttr pg"
| "run_op fmt e (OpChange inputId state) pg =
     (case obj_get (inputState pg) inputId of
        None \<Rightarrow> Inr pg
      | Some _ \<Rightarrow> applyPage e (pg\<lparr>inputState := obj_set (inputState pg) inputId state\<rparr>))"

fun run_ops :: "(rat option \<Rightarrow> string) \<Rightarrow> env \<Rightarrow> operation list \<Rightarrow> page \<Rightarrow> error + page" where
  "run_ops fmt e [] pg = Inr pg"
| "run_ops fmt e (opn # ops) pg =
     (case run_op fmt e opn pg of
        Inl err \<Rightarrow> Inl err
      | Inr pg' \<Rightarrow> run_ops fmt e ops pg')"

section \<open>Auxiliary notions for the properties\<close>






text \<open>The chart is rebuilt from cross-tab data: the page has cross-tab information for its id, with rows and a configuration.\<close>

definition usesCrossTab :: "env \<Rightarrow> chart \<Rightarrow> bool" where
  "usesCrossTab e ch =
     (case crossTabInfoOf e ch of
        None \<Rightarrow> False
      | Some info \<Rightarrow> ct_data info \<noteq> None \<and> ct_config info \<noteq> None)"

text \<open>The categories that survive the filters of the controls, for a chart with the original categories \<open>cats\<close>.\<close>

definition survivingCategories :: "inputState \<Rightarrow> jval list \<Rightarrow> jval list" where
  "survivingCategories st cats = newCategoriesOf (Some cats) (visibleIndices (collect st) cats)"

text \<open>The chart type change, for one series.\<close>

definition typeSeries :: "filters \<Rightarrow> series \<Rightarrow> series" where
  "typeSeries fs s =
     (case obj_get fs ''chart_type'' of
        None \<Rightarrow> s
      | Some sel \<Rightarrow>
          (case sel of [] \<Rightarrow> s
           | chartType # _ \<Rightarrow> if chartType \<noteq> [] then s\<lparr>stype := typeMap chartType\<rparr> else s))"

text \<open>The metric branch, for one series.\<close>

definition metricSeriesOf :: "env \<Rightarrow> filters \<Rightarrow> jval list option \<Rightarrow> series \<Rightarrow> series" where
  "metricSeriesOf e fs originalCats s =
     (case selectedMetricOf e fs of
        None \<Rightarrow> s
      | Some (selectedMetric, allData) \<Rightarrow>
          metricSeries selectedMetric allData (timeVarOf e allData)
            (timeValuesOf originalCats (timeVarOf e allData) allData) s)"

text \<open>What a run on the ordinary path does to one series of the chart \<open>ch\<close>.\<close>

definition stepSeries :: "env \<Rightarrow> inputState \<Rightarrow> chart \<Rightarrow> series \<Rightarrow> series" where
  "stepSeries e st ch s =
     (let c = collect st; oc = originalCategoriesOf ch
      in filterSeries st c (map name (chart_series ch)) oc (hasNumericXAxis ch)
           (case oc of None \<Rightarrow> [] | Some cats \<Rightarrow> visibleIndices c cats)
           (metricSeriesOf e (filters c) oc (typeSeries (filters c) s)))"

text \<open>The controls with a set of selected values: select, checkbox, radio and button group.\<close>

definition isDiscrete :: "control \<Rightarrow> bool" where
  "isDiscrete state = (inputType state \<in> {Select, Checkbox, Radio, ButtonGroup})"

text \<open>The entry of \<^verbatim>\<open>sliderFilters\<close> that a slider gives.\<close>

definition sliderInfoOf :: "control \<Rightarrow> sliderInfo" where
  "sliderInfoOf state =
     \<lparr>sl_value = nvalue state, sl_min = cmin state, sl_max = cmax state,
      sl_step = (if cstep state = 0 then 1 else cstep state), sl_labels = labels state\<rparr>"

text \<open>The label at the position of a slider, if it has labels and the position has one.\<close>

definition currentLabel :: "control \<Rightarrow> jval option" where
  "currentLabel state =
     (case labels state of
        None \<Rightarrow> None
      | Some ls \<Rightarrow> if ls = [] then None else startLabelOf (sliderInfoOf state) ls)"

text \<open>The entry of a series in \<^verbatim>\<open>originalSeriesData\<close>, once it exists, is the same afterwards.\<close>

definition series_kept :: "series \<Rightarrow> series \<Rightarrow> bool" where
  "series_kept s s' = (\<forall>d. original s = Some d \<longrightarrow> original s' = Some d)"

text \<open>The stored original categories of a chart, once they exist, are the same afterwards.\<close>

definition cats_kept :: "chart \<Rightarrow> chart \<Rightarrow> bool" where
  "cats_kept ch ch' =
     (\<forall>cs. originalCategories ch = Some cs \<longrightarrow> originalCategories ch' = Some cs)"

text \<open>The snapshot of a chart (original categories and original data of every series) is kept.\<close>

definition chart_kept :: "chart \<Rightarrow> chart \<Rightarrow> bool" where
  "chart_kept ch ch' =
     (cats_kept ch ch' \<and> list_all2 series_kept (chart_series ch) (chart_series ch'))"

text \<open>The snapshot of every chart of a page: the stored original categories and the stored original data of every series.\<close>

definition snapshot_of :: "error + page \<Rightarrow> (jval list option \<times> jpoint list option list) list" where
  "snapshot_of r =
     (case r of
        Inl _ \<Rightarrow> []
      | Inr pg \<Rightarrow> map (\<lambda>ch. (originalCategories ch, map original (chart_series ch))) (charts pg))"

subsection \<open>Example data\<close>

definition ex_cfg :: ctconfig where
  "ex_cfg = \<lparr>xVar = ''x'', stackVar = ''s'', filterVars = [''country''],
     stackedType = ''percent'', stackOrder = [], xOrder = []\<rparr>"

definition ex_rows :: "ctrow list" where
  "ex_rows = [\<lparr>cells = [(''x'', ''a''), (''s'', ''s1''), (''country'', ''DE'')], n = 1\<rparr>,
              \<lparr>cells = [(''x'', ''a''), (''s'', ''s2''), (''country'', ''DE'')], n = 3\<rparr>,
              \<lparr>cells = [(''x'', ''b''), (''s'', ''s1''), (''country'', ''NL'')], n = 2\<rparr>]"

definition ex_series :: "string \<Rightarrow> jpoint list \<Rightarrow> series" where
  "ex_series nm d = \<lparr>name = nm, data = d, visible = True, showInLegend = True,
     stype = ''column'', original = Some d\<rparr>"

definition ex_chart :: "string option \<Rightarrow> jval list option \<Rightarrow> series list \<Rightarrow> chart" where
  "ex_chart cid cats ss = \<lparr>chart_id = cid, xAxis0 = Some cats, originalCategories = None,
     chart_series = ss, legend_enabled = True, title = None, subtitle = None,
     yAxis_title = None, redraws = 0\<rparr>"

definition ex_control :: "string \<Rightarrow> inputType \<Rightarrow> string list \<Rightarrow> control" where
  "ex_control fv ty sel = \<lparr>filterVar = fv, inputType = ty, selected = sel, bvalue = False,
     nvalue = None, svalue = [], cmin = None, cmax = None, cstep = 1, labels = None,
     toggleSeries = None, override = False\<rparr>"

definition ex_env :: env where
  "ex_env = \<lparr>crossTab = None, metricData = None, timeVarCfg = None\<rparr>"

definition ex_slider :: "string \<Rightarrow> rat \<Rightarrow> rat \<Rightarrow> rat \<Rightarrow> jval list option \<Rightarrow> control" where
  "ex_slider fv v mn st ls = (ex_control fv Slider [])\<lparr>nvalue := Some v, cmin := Some mn,
      cstep := st, labels := ls\<rparr>"

definition ex_years5 :: "jval list" where
  "ex_years5 = [JNum 2014, JNum 2015, JNum 2016, JNum 2020, JNum 2021]"

definition ex_years7 :: "jval list" where
  "ex_years7 = [JNum 2015, JNum 2016, JNum 2017, JNum 2018, JNum 2019, JNum 2020, JNum 2021]"



definition ex_fmt :: "rat option \<Rightarrow> string" where
  "ex_fmt v = (case v of None \<Rightarrow> ''NaN'' | Some r \<Rightarrow> show_int \<lfloor>r\<rfloor>)"

definition ex_dflt :: "string list \<Rightarrow> dflt" where
  "ex_dflt sel = \<lparr>d_selected = sel, d_bvalue = False, d_nvalue = None, d_svalue = []\<rparr>"

definition ex_element :: "(string \<times> bool) list \<Rightarrow> element" where
  "ex_element its = \<lparr>is_select = True, items = its, checked = False, evalue = [],
     attr_min = None, attr_max = None, track = None, textContent = []\<rparr>"

definition ex_page :: page where
  "ex_page = \<lparr>inputState = [(''metric_sel'', ex_control ''metric'' Select [''m''])],
     defaultValues = [(''metric_sel'', ex_dflt [''m''])],
     elements = [(''metric_sel'', ex_element [(''m'', True), (''k'', False)])],
     choicesInstances = [],
     charts = [ex_chart None (Some [JNum 2015, JNum 2016])
                 [(ex_series ''A'' [PNum 1, PNum 2])\<lparr>original := None\<rparr>]]\<rparr>"

definition ex_metric_env :: env where
  "ex_metric_env = \<lparr>crossTab = None,
     metricData = Some [\<lparr>country = ''A'', metric = ''m'', cols = [(''year'', JNum 2015)], mvalue = PNum 9\<rparr>,
                        \<lparr>country = ''A'', metric = ''k'', cols = [(''year'', JNum 2016)], mvalue = PNum 5\<rparr>],
     timeVarCfg = None\<rparr>"

text \<open>
  A chart without categories whose series \<open>A\<close> has the stored data of one point
  \<^verbatim>\<open>{x: 2015, y: 7}\<close>, a metric dataset that holds this point for the metric \<open>m\<close>, and the
  controls: the metric \<open>m\<close> selected, a slider at 2016. \<open>d\<close> is the displayed data of the
  series, \<open>k\<close> the number of filter applications so far.
\<close>

definition ex_point_env :: env where
  "ex_point_env = \<lparr>crossTab = None,
     metricData = Some [\<lparr>country = ''A'', metric = ''m'', cols = [(''year'', JNum 2015)],
                         mvalue = PObj (Some 2015) (Some 7)\<rparr>],
     timeVarCfg = None\<rparr>"

definition ex_point_state :: inputState where
  "ex_point_state = [(''sel'', ex_control ''metric'' Select [''m'']),
                     (''sl'', ex_slider ''year'' 2016 2000 1 None)]"

definition ex_point_chart :: "jpoint list \<Rightarrow> nat \<Rightarrow> chart" where
  "ex_point_chart d k =
     \<lparr>chart_id = None, xAxis0 = Some None, originalCategories = None,
      chart_series = [\<lparr>name = ''A'', data = d, visible = True, showInLegend = True,
                       stype = ''column'', original = Some [PObj (Some 2015) (Some 7)]\<rparr>],
      legend_enabled = True, title = (if k = 0 then None else Some ''m by Country''),
      subtitle = (if k = 0 then None else Some ''Trends over time''),
      yAxis_title = (if k = 0 then None else Some ''m''), redraws = k\<rparr>"

section \<open>Properties of the cross-tab rebuild\<close>

declare show_nat.simps [simp del]



































lemma ex_crossTabSeries: "crossTabSeries ex_cfg [] ex_rows = [(''s1'', [25, 100]), (''s2'', [75, 0])]"
  by (simp add: crossTabSeries_def ex_cfg_def ex_rows_def summedOf_def sum_row_def row_str_def
      obj_get_def byXOf_def byX_add_def obj_values_def obj_entries_def is_array_index_def is_digit_def
      xTotalsOf_def obj_keys_def orderedXOf_def orderedStackOf_def cellValue_def Let_def)








section \<open>Properties of filter application\<close>

subsection \<open>What a run leaves alone\<close>

lemma legendSwitch_frame:
  "chart_series (legendSwitch st ch) = chart_series ch"
  "xAxis0 (legendSwitch st ch) = xAxis0 ch"
  "originalCategories (legendSwitch st ch) = originalCategories ch"
  "redraws (legendSwitch st ch) = redraws ch"
  "chart_id (legendSwitch st ch) = chart_id ch"
proof -
  have "chart_series (foldl (\<lambda>c state. if inputType state = Switch \<and> filterVar state = ''show_legend''
                         then c\<lparr>legend_enabled := bvalue state\<rparr> else c) ch xs) = chart_series ch
     \<and> xAxis0 (foldl (\<lambda>c state. if inputType state = Switch \<and> filterVar state = ''show_legend''
                         then c\<lparr>legend_enabled := bvalue state\<rparr> else c) ch xs) = xAxis0 ch
     \<and> originalCategories (foldl (\<lambda>c state. if inputType state = Switch \<and> filterVar state = ''show_legend''
                         then c\<lparr>legend_enabled := bvalue state\<rparr> else c) ch xs) = originalCategories ch
     \<and> redraws (foldl (\<lambda>c state. if inputType state = Switch \<and> filterVar state = ''show_legend''
                         then c\<lparr>legend_enabled := bvalue state\<rparr> else c) ch xs) = redraws ch
     \<and> chart_id (foldl (\<lambda>c state. if inputType state = Switch \<and> filterVar state = ''show_legend''
                         then c\<lparr>legend_enabled := bvalue state\<rparr> else c) ch xs) = chart_id ch" for xs
    by (induction xs arbitrary: ch) auto
  then show "chart_series (legendSwitch st ch) = chart_series ch"
  "xAxis0 (legendSwitch st ch) = xAxis0 ch"
  "originalCategories (legendSwitch st ch) = originalCategories ch"
  "redraws (legendSwitch st ch) = redraws ch"
  "chart_id (legendSwitch st ch) = chart_id ch"
    unfolding legendSwitch_def by blast+
qed

lemma chartTypeChange_frame:
  "xAxis0 (chartTypeChange fs ch) = xAxis0 ch"
  "originalCategories (chartTypeChange fs ch) = originalCategories ch"
  "redraws (chartTypeChange fs ch) = redraws ch"
  "chart_id (chartTypeChange fs ch) = chart_id ch"
  "legend_enabled (chartTypeChange fs ch) = legend_enabled ch"
  by (simp_all add: chartTypeChange_def split: option.splits list.splits)

lemma chartTypeChange_series:
  "chart_series (chartTypeChange fs ch) = map (typeSeries fs) (chart_series ch)"
  by (cases "obj_get fs ''chart_type''")
     (auto simp: chartTypeChange_def typeSeries_def[abs_def] split: list.splits)

lemma metricSwitch_series:
  "chart_series (metricSwitch e fs oc ch) = map (metricSeriesOf e fs oc) (chart_series ch)"
  by (cases "selectedMetricOf e fs")
     (auto simp: metricSwitch_def metricSeriesOf_def[abs_def] Let_def)

lemma metricSwitch_frame:
  "xAxis0 (metricSwitch e fs oc ch) = xAxis0 ch"
  "originalCategories (metricSwitch e fs oc ch) = originalCategories ch"
  "redraws (metricSwitch e fs oc ch) = redraws ch"
  "chart_id (metricSwitch e fs oc ch) = chart_id ch"
  "legend_enabled (metricSwitch e fs oc ch) = legend_enabled ch"
  by (simp_all add: metricSwitch_def Let_def split: option.splits prod.splits)

lemma captureCategories_frame:
  "chart_series (captureCategories ch) = chart_series ch"
  "xAxis0 (captureCategories ch) = xAxis0 ch"
  "redraws (captureCategories ch) = redraws ch"
  "chart_id (captureCategories ch) = chart_id ch"
  "legend_enabled (captureCategories ch) = legend_enabled ch"
  "title (captureCategories ch) = title ch"
  "subtitle (captureCategories ch) = subtitle ch"
  "yAxis_title (captureCategories ch) = yAxis_title ch"
  by (simp_all add: captureCategories_def split: option.splits)

lemma captureCategories_orig:
  "originalCategories (captureCategories ch) = originalCategoriesOf ch"
  by (simp add: captureCategories_def originalCategoriesOf_def categories_def split: option.splits)

lemma originalCategoriesOf_capture:
  "originalCategoriesOf (captureCategories ch) = originalCategoriesOf ch"
  by (simp add: captureCategories_def originalCategoriesOf_def categories_def split: option.splits)

lemma hasNumericXAxis_capture: "hasNumericXAxis (captureCategories ch) = hasNumericXAxis ch"
  by (simp add: hasNumericXAxis_def originalCategoriesOf_capture captureCategories_frame)

subsection \<open>The result of a run on the ordinary path\<close>

lemma filterChart_Inr:
  assumes "filterChart e st (collect st) ch = Inr ch'"
  shows "chart_series ch' = map (stepSeries e st ch) (chart_series ch)"
    and "redraws ch' = Suc (redraws ch)"
    and "originalCategories ch' = originalCategoriesOf ch"
    and "chart_id ch' = chart_id ch"
    and "xAxis0 ch' = (case originalCategoriesOf ch of
            None \<Rightarrow> xAxis0 ch
          | Some cats \<Rightarrow> if survivingCategories st cats \<noteq> [] then Some (Some (survivingCategories st cats))
                         else xAxis0 ch)"
  using assms
  unfolding filterChart_def Let_def stepSeries_def survivingCategories_def
  by (auto simp: legendSwitch_frame chartTypeChange_frame chartTypeChange_series metricSwitch_frame
      metricSwitch_series captureCategories_frame captureCategories_orig originalCategoriesOf_capture
      hasNumericXAxis_capture newCategoriesOf_def comp_def
      split: if_splits option.splits)

subsection \<open>Rules for evaluating examples\<close>

lemmas js_eval =
  toLowerCase_def lower_char_def is_ws_def trim_def is_digit_def digit_val_def digits_val_def
  digit_char_def show_nat.simps show_int_def exponent_factor_def parseFloat_str_def Math_round_def
  obj_get_def is_array_index_def obj_entries_def obj_keys_def obj_values_def find_index_def

lemmas crossTab_eval =
  row_str_def allLabels_def hasAllOption_def sum_row_def summedOf_def byX_add_def byXOf_def
  xTotalsOf_def orderedXOf_def orderedStackOf_def cellValue_def crossTabSeries_def
  crossTabCategories_def crossTabTotal_def target_series_def rebuildFromCrossTab_def setData_def
  categories_def

lemmas filter_eval =
  collect_one_def collect_def period_keep_def applyPeriod_def isCategoryFilter_def
  applyCategoryFilter_def startLabelOf_def applySlider_def visibleIndices_def
  selectedMetricOf_def configuredTimeVar_def detectTimeVar_def metric_throws_def timeVarOf_def
  js_sort_def timeValuesOf_def metricNewData_def metricSeries_def metricSwitch_def
  legendSwitch_def typeMap_def chartTypeChange_def switchHiddenSeries_def switchShownSeries_def
  textHides_def isSeriesFilter_def filterHides_def showSeries_def filterData_def hideSeries_def
  filterSeries_def captureCategories_def originalCategoriesOf_def hasNumericXAxis_def
  newCategoriesOf_def filterChart_def crossTabInfoOf_def applyChart_def applyAllFilters_def
  storeSeries_def storeOriginalData_def List.map_filter_def

lemmas ex_defs = ex_cfg_def ex_rows_def ex_series_def ex_chart_def ex_control_def ex_env_def

subsection \<open>Category labels and redraws\<close>

lemma applyChart_ordinary:
  "\<not> usesCrossTab e ch \<Longrightarrow> applyChart e st ch = filterChart e st (collect st) ch"
  by (auto simp: usesCrossTab_def applyChart_def rebuildFromCrossTab_def Let_def split: option.splits)






subsection \<open>Series hidden by a switch\<close>

lemma name_typeSeries: "name (typeSeries fs s) = name s"
  by (simp add: typeSeries_def split: option.splits list.splits)

lemma name_metricSeriesOf: "name (metricSeriesOf e fs oc s) = name s"
  by (simp add: metricSeriesOf_def metricSeries_def setData_def Let_def split: option.splits prod.splits)

lemma name_filterData: "name (filterData c oc h vis s) = name s"
  by (simp add: filterData_def setData_def split: option.splits)

lemma name_filterSeries: "name (filterSeries st c nms oc h vis s) = name s"
  by (simp add: filterSeries_def hideSeries_def name_filterData)

lemma name_stepSeries: "name (stepSeries e st ch s) = name s"
  by (simp add: stepSeries_def Let_def name_filterSeries name_metricSeriesOf name_typeSeries)






section \<open>Properties of the category filters\<close>

lemma obj_values_single: "obj_values [(k, v)] = [v]"
  by (simp add: obj_values_def obj_entries_def)

lemma floor_rat_numeral:
  "\<lfloor>numeral a / (numeral b :: rat)\<rfloor> = numeral a div numeral b"
  "\<lfloor>- numeral a / (numeral b :: rat)\<rfloor> = - numeral a div numeral b"
  "\<lfloor>1 / (numeral b :: rat)\<rfloor> = 1 div numeral b"
  "\<lfloor>- 1 / (numeral b :: rat)\<rfloor> = - 1 div numeral b"
proof -
  show "\<lfloor>numeral a / (numeral b :: rat)\<rfloor> = numeral a div numeral b"
    using floor_divide_of_int_eq[of "numeral a" "numeral b", where ?'a = rat] by simp
  show "\<lfloor>- numeral a / (numeral b :: rat)\<rfloor> = - numeral a div numeral b"
    using floor_divide_of_int_eq[of "- numeral a" "numeral b", where ?'a = rat] by simp
  show "\<lfloor>1 / (numeral b :: rat)\<rfloor> = 1 div numeral b"
    using floor_divide_of_int_eq[of 1 "numeral b", where ?'a = rat] by simp
  show "\<lfloor>- 1 / (numeral b :: rat)\<rfloor> = - 1 div numeral b"
    using floor_divide_of_int_eq[of "- 1" "numeral b", where ?'a = rat] by simp
qed

lemma obj_values_Nil: "obj_values [] = []"
  by (simp add: obj_values_def obj_entries_def)

lemma map_nth_filter: "map ((!) xs) (filter (\<lambda>i. P (xs ! i)) [0 ..< length xs]) = filter P xs"
proof -
  have "filter P (map ((!) xs) [0 ..< length xs]) =
        map ((!) xs) (filter (P \<circ> (!) xs) [0 ..< length xs])"
    by (rule filter_map)
  then show ?thesis by (simp add: map_nth comp_def)
qed

lemma collect_period:
  assumes "isDiscrete ctl" "filterVar ctl = ''period''"
  shows "collect [(cid, ctl)] = \<lparr>filters = [], sliderFilters = [], switchFilters = [],
     textFilters = [], numberFilters = [], periodFilters = [(''period'', selected ctl)]\<rparr>"
  using assms by (auto simp: collect_def obj_values_single collect_one_def isDiscrete_def)

lemma surviving_period:
  assumes "isDiscrete ctl" "filterVar ctl = ''period''"
  shows "survivingCategories [(cid, ctl)] cats =
         map ((!) cats) (applyPeriod cats (selected ctl) [0 ..< length cats])"
  by (simp add: survivingCategories_def collect_period[OF assms] visibleIndices_def
      newCategoriesOf_def obj_values_single obj_values_Nil)

lemma str_includes_nonempty: "str_includes v (c # t) \<Longrightarrow> v \<noteq> []"
  by (cases v) auto

text \<open>
  Claim C5, amended. With one discrete control bound to \<open>period\<close> whose first selected
  value is \<open>v\<close>, for any original categories: if \<open>v\<close> contains "All" every category
  survives; if \<open>v\<close> contains "2015-2019" and not "All", exactly the categories that are not
  numeric or lie in 2015..2019 survive; if \<open>v\<close> contains "2020" and none of "All",
  "Pre-COVID" and "2015-2019", exactly the categories that are not numeric or are at
  least 2020 survive. For the categories 2014, 2015, 2016, 2020, 2021 these are
  2015, 2016, then all five, then 2020, 2021.
\<close>

theorem period_presets:
  assumes d: "isDiscrete ctl" and p: "filterVar ctl = ''period''" and s: "selected ctl = v # rest"
  shows "(str_includes v ''All'' \<longrightarrow> survivingCategories [(cid, ctl)] cats = cats) \<and>
         (\<not> str_includes v ''All'' \<and> str_includes v ''2015-2019'' \<longrightarrow>
            survivingCategories [(cid, ctl)] cats =
              filter (\<lambda>c. case parseFloat c of None \<Rightarrow> True | Some x \<Rightarrow> 2015 \<le> x \<and> x \<le> 2019) cats) \<and>
         (\<not> str_includes v ''All'' \<and> \<not> str_includes v ''Pre-COVID'' \<and>
          \<not> str_includes v ''2015-2019'' \<and> str_includes v ''2020'' \<longrightarrow>
            survivingCategories [(cid, ctl)] cats =
              filter (\<lambda>c. case parseFloat c of None \<Rightarrow> True | Some x \<Rightarrow> 2020 \<le> x) cats)"
proof (intro conjI impI)
  assume "str_includes v ''All''"
  then show "survivingCategories [(cid, ctl)] cats = cats"
    by (simp add: surviving_period[OF d p] s applyPeriod_def map_nth)
next
  assume a: "\<not> str_includes v ''All'' \<and> str_includes v ''2015-2019''"
  then have "v \<noteq> []" using str_includes_nonempty by blast
  moreover have "period_keep v c =
      (case parseFloat c of None \<Rightarrow> True | Some x \<Rightarrow> 2015 \<le> x \<and> x \<le> 2019)" for c
    using a by (auto simp: period_keep_def split: option.splits)
  ultimately have "applyPeriod cats (selected ctl) [0 ..< length cats] =
      filter (\<lambda>idx. (\<lambda>c. case parseFloat c of None \<Rightarrow> True | Some x \<Rightarrow> 2015 \<le> x \<and> x \<le> 2019) (cats ! idx))
        [0 ..< length cats]"
    using a by (simp add: s applyPeriod_def)
  then show "survivingCategories [(cid, ctl)] cats =
      filter (\<lambda>c. case parseFloat c of None \<Rightarrow> True | Some x \<Rightarrow> 2015 \<le> x \<and> x \<le> 2019) cats"
    using map_nth_filter[of cats "(\<lambda>c. case parseFloat c of None \<Rightarrow> True | Some x \<Rightarrow> 2015 \<le> x \<and> x \<le> 2019)"]
    by (simp only: surviving_period[OF d p])
next
  assume a: "\<not> str_includes v ''All'' \<and> \<not> str_includes v ''Pre-COVID'' \<and>
          \<not> str_includes v ''2015-2019'' \<and> str_includes v ''2020''"
  then have "v \<noteq> []" using str_includes_nonempty by blast
  moreover have "period_keep v c =
      (case parseFloat c of None \<Rightarrow> True | Some x \<Rightarrow> 2020 \<le> x)" for c
    using a by (auto simp: period_keep_def split: option.splits)
  ultimately have "applyPeriod cats (selected ctl) [0 ..< length cats] =
      filter (\<lambda>idx. (\<lambda>c. case parseFloat c of None \<Rightarrow> True | Some x \<Rightarrow> 2020 \<le> x) (cats ! idx))
        [0 ..< length cats]"
    using a by (simp add: s applyPeriod_def)
  then show "survivingCategories [(cid, ctl)] cats =
      filter (\<lambda>c. case parseFloat c of None \<Rightarrow> True | Some x \<Rightarrow> 2020 \<le> x) cats"
    using map_nth_filter[of cats "(\<lambda>c. case parseFloat c of None \<Rightarrow> True | Some x \<Rightarrow> 2020 \<le> x)"]
    by (simp only: surviving_period[OF d p])
qed

theorem period_presets_witness:
  "survivingCategories [(''p'', ex_control ''period'' Radio [''2015-2019''])] ex_years5 =
     [JNum 2015, JNum 2016] \<and>
   survivingCategories [(''p'', ex_control ''period'' Radio [''All years''])] ex_years5 = ex_years5 \<and>
   survivingCategories [(''p'', ex_control ''period'' Radio [''2020''])] ex_years5 =
     [JNum 2020, JNum 2021]"
  using period_presets[of "ex_control ''period'' Radio [''2015-2019'']" "''2015-2019''" "[]" "''p''" ex_years5]
        period_presets[of "ex_control ''period'' Radio [''All years'']" "''All years''" "[]" "''p''" ex_years5]
        period_presets[of "ex_control ''period'' Radio [''2020'']" "''2020''" "[]" "''p''" ex_years5]
  by (simp add: isDiscrete_def ex_control_def ex_years5_def)

text \<open>
  The claim as stated fails for a value that contains "2020" and also "Pre-COVID": the
  test for "Pre-COVID" comes first, and the categories 2015 and 2016 survive, not 2020
  and 2021.
\<close>

theorem period_presets_counterexample:
  "str_includes ''Pre-COVID (before 2020)'' ''2020'' \<and>
   survivingCategories [(''p'', ex_control ''period'' Radio [''Pre-COVID (before 2020)''])] ex_years5 =
     [JNum 2015, JNum 2016]"
  by (simp add: survivingCategories_def js_eval filter_eval ex_defs ex_years5_def Let_def)

text \<open>
  Claim C6 on the example of the specification: with the categories 2015 to 2021 and a
  slider with the labels "2015", "2018", "2021" that stands on the label of index 1, the
  categories 2018 to 2021 survive; without labels, a slider of value 2018 keeps the same
  categories by the numeric comparison.
\<close>

lemma slider_example:
  "currentLabel (ex_slider ''year'' 1 0 1 (Some [JStr ''2015'', JStr ''2018'', JStr ''2021''])) =
     Some (JStr ''2018'') \<and>
   survivingCategories
     [(''s'', ex_slider ''year'' 1 0 1 (Some [JStr ''2015'', JStr ''2018'', JStr ''2021'']))] ex_years7 =
     [JNum 2018, JNum 2019, JNum 2020, JNum 2021] \<and>
   survivingCategories [(''s'', ex_slider ''year'' 2018 2015 1 None)] ex_years7 =
     [JNum 2018, JNum 2019, JNum 2020, JNum 2021]"
  by (simp add: survivingCategories_def currentLabel_def sliderInfoOf_def ex_slider_def js_eval
      filter_eval ex_defs ex_years7_def Let_def floor_rat_numeral)

text \<open>
  Claim C6 does not hold of the code in general: keep-from-index fails for a label that
  is falsy. The slider with the labels -1, 0, 1 (minimum -1, step 1) stands on the value
  0, so on the label 0 of index 1, which is the category at position 1. The guard
  \<^verbatim>\<open>if (startLabel)\<close> takes the label 0 for a missing label and skips the filter: all
  three categories survive, where the categories from position 1 on are 0 and 1. The
  display of the same slider tests the index against the range of the labels and shows
  the label 0.
\<close>

theorem slider_zero_label_skipped:
  "currentLabel (ex_slider ''v'' 0 (- 1) 1 (Some [JNum (- 1), JNum 0, JNum 1])) = Some (JNum 0) \<and>
   find_index (\<lambda>cat. String cat = String (JNum 0)) [JNum (- 1), JNum 0, JNum 1] = Some 1 \<and>
   survivingCategories [(''s'', ex_slider ''v'' 0 (- 1) 1 (Some [JNum (- 1), JNum 0, JNum 1]))]
     [JNum (- 1), JNum 0, JNum 1] = [JNum (- 1), JNum 0, JNum 1] \<and>
   drop 1 [JNum (- 1), JNum 0, JNum 1] = [JNum 0, JNum 1] \<and>
   sliderDisplayText ex_fmt (Some [JNum (- 1), JNum 0, JNum 1]) (Some 0) (Some (- 1)) 1 = ''0''"
  by (simp add: survivingCategories_def currentLabel_def sliderInfoOf_def ex_slider_def js_eval
      filter_eval ex_defs sliderDisplayText_def Let_def floor_rat_numeral)
section \<open>The snapshot\<close>

lemma series_kept_refl: "series_kept s s" by (simp add: series_kept_def)
lemma series_kept_trans: "series_kept a b \<Longrightarrow> series_kept b c \<Longrightarrow> series_kept a c"
  by (simp add: series_kept_def)
lemma cats_kept_refl: "cats_kept s s" by (simp add: cats_kept_def)
lemma cats_kept_trans: "cats_kept a b \<Longrightarrow> cats_kept b c \<Longrightarrow> cats_kept a c"
  by (simp add: cats_kept_def)
lemma chart_kept_refl: "chart_kept s s"
  by (simp add: chart_kept_def cats_kept_refl list_all2_refl series_kept_refl)
lemma chart_kept_trans: "chart_kept a b \<Longrightarrow> chart_kept b c \<Longrightarrow> chart_kept a c"
  unfolding chart_kept_def
  using cats_kept_trans list_all2_trans[of series_kept series_kept series_kept] series_kept_trans
  by blast

lemma list_all2_map_same: "list_all2 P xs (map f xs) = (\<forall>x\<in>set xs. P x (f x))"
  by (induction xs) auto

lemma original_typeSeries: "original (typeSeries fs s) = original s"
  by (simp add: typeSeries_def split: option.splits list.splits)

lemma original_filterData: "original (filterData c oc h vis s) = original s"
  by (simp add: filterData_def setData_def split: option.splits)

lemma original_filterSeries: "original (filterSeries st c nms oc h vis s) = original s"
  by (simp add: filterSeries_def hideSeries_def original_filterData)

lemma selectedMetricOf_None: "metricData e = None \<Longrightarrow> selectedMetricOf e fs = None"
  by (simp add: selectedMetricOf_def split: option.splits)

lemma original_stepSeries:
  "selectedMetricOf e (filters (collect st)) = None \<Longrightarrow> original (stepSeries e st ch s) = original s"
  by (simp add: stepSeries_def Let_def original_filterSeries metricSeriesOf_def original_typeSeries)

lemma originalCategoriesOf_Some:
  "originalCategories ch = Some cs \<Longrightarrow> originalCategoriesOf ch = Some cs"
  by (simp add: originalCategoriesOf_def)

lemma takeWhile_not_less: "\<exists>x\<in>set xs. P x \<Longrightarrow> length (takeWhile (\<lambda>x. \<not> P x) xs) < length xs"
  by (induction xs) auto

lemma find_index_less: "find_index P xs = Some i \<Longrightarrow> i < length xs"
  using takeWhile_not_less[of xs P]
  by (auto simp: find_index_def list_ex_iff split: if_splits)

lemma map_update_self: "(map f xs)[i := f (xs ! i)] = map f xs"
proof (cases "i < length xs")
  case True
  then have "(map f xs) ! i = f (xs ! i)" by simp
  then show ?thesis by (metis list_update_id)
next
  case False
  then have "length (map f xs) \<le> i" by simp
  then show ?thesis by (rule list_update_beyond)
qed

lemma emit_series_original:
  "map original (emit_series k sd ss) = map original ss \<and> length (emit_series k sd ss) = length ss"
proof (induction k sd ss rule: emit_series.induct)
  case (1 seriesIdx ss)
  then show ?case by simp
next
  case (2 seriesIdx sv seriesData rest ss)
  let ?ss' = "case target_series ss sv seriesIdx of None \<Rightarrow> ss
        | Some i \<Rightarrow> ss[i := setData (map PNum seriesData) (ss ! i)]"
  have "map original ?ss' = map original ss \<and> length ?ss' = length ss"
    by (auto simp: map_update setData_def map_update_self split: option.splits)
  then show ?case using 2 by simp
qed

lemma list_all2_kept_original:
  "map original ss' = map original ss \<Longrightarrow> list_all2 series_kept ss ss'"
  unfolding list_all2_conv_all_nth series_kept_def
  by (metis length_map nth_map)

lemma filterChart_kept:
  assumes "filterChart e st (collect st) ch = Inr ch'"
  shows "cats_kept ch ch'"
    and "selectedMetricOf e (filters (collect st)) = None \<Longrightarrow> chart_kept ch ch'"
proof -
  show c: "cats_kept ch ch'"
    using filterChart_Inr(3)[OF assms] by (simp add: cats_kept_def originalCategoriesOf_Some)
  assume "selectedMetricOf e (filters (collect st)) = None"
  then show "chart_kept ch ch'"
    using c by (simp add: chart_kept_def filterChart_Inr(1)[OF assms] list_all2_map_same
        series_kept_def original_stepSeries)
qed

lemma rebuild_kept: "rebuildFromCrossTab ch info fs = Some ch' \<Longrightarrow> chart_kept ch ch'"
  by (auto simp: rebuildFromCrossTab_def chart_kept_def cats_kept_def emit_series_original
      list_all2_kept_original split: option.splits)

lemma applyChart_crossTab:
  assumes "usesCrossTab e ch"
  obtains info ch0 where "crossTabInfoOf e ch = Some info"
    and "rebuildFromCrossTab ch info (filters (collect st)) = Some ch0"
    and "applyChart e st ch = Inr ch0"
proof -
  from assms obtain info where i: "crossTabInfoOf e ch = Some info"
      "ct_data info \<noteq> None" "ct_config info \<noteq> None"
    by (auto simp: usesCrossTab_def split: option.splits)
  then obtain ch0 where r: "rebuildFromCrossTab ch info (filters (collect st)) = Some ch0"
    by (auto simp: rebuildFromCrossTab_def)
  have "applyChart e st ch = Inr ch0" using i(1) r by (simp add: applyChart_def Let_def)
  then show thesis using that i(1) r by blast
qed

lemma applyChart_kept:
  assumes "applyChart e st ch = Inr ch'"
  shows "cats_kept ch ch' \<and> (metricData e = None \<longrightarrow> chart_kept ch ch')"
proof (cases "usesCrossTab e ch")
  case True
  then obtain info ch0 where r: "rebuildFromCrossTab ch info (filters (collect st)) = Some ch0"
    "applyChart e st ch = Inr ch0"
    using applyChart_crossTab[of e ch st] by metis
  then have "ch0 = ch'" using assms by simp
  then show ?thesis using rebuild_kept[OF r(1)]
    by (simp add: chart_kept_def)
next
  case False
  then have f: "filterChart e st (collect st) ch = Inr ch'"
    using assms by (simp add: applyChart_ordinary)
  show ?thesis using filterChart_kept[OF f] by (simp add: selectedMetricOf_None)
qed

lemma applyCharts_kept:
  "applyCharts e st chs = Inr chs' \<Longrightarrow>
   list_all2 cats_kept chs chs' \<and> (metricData e = None \<longrightarrow> list_all2 chart_kept chs chs')"
proof (induction chs arbitrary: chs')
  case Nil
  then show ?case by simp
next
  case (Cons ch chs)
  from Cons.prems obtain c1 cs1 where a: "applyChart e st ch = Inr c1"
    and b: "applyCharts e st chs = Inr cs1" and c: "chs' = c1 # cs1"
    by (auto split: sum.splits)
  show ?case using applyChart_kept[OF a] Cons.IH[OF b] c by simp
qed

lemma storeOriginalData_kept:
  "list_all2 chart_kept chs (storeOriginalData chs)"
  by (simp add: storeOriginalData_def list_all2_map_same chart_kept_def cats_kept_def
      series_kept_def storeSeries_def split: option.splits)

lemma charts_resetOne: "charts (resetOne fmt pg k) = charts pg"
  by (simp add: resetOne_def split: option.splits)

lemma charts_resetControls: "charts (resetControls fmt a pg) = charts pg"
proof -
  have "charts (foldl (resetOne fmt) p ts) = charts p" for p ts
    by (induction ts arbitrary: p) (simp_all add: charts_resetOne)
  then show ?thesis by (simp add: resetControls_def)
qed

lemma run_op_kept:
  assumes "run_op fmt e opn pg = Inr pg'"
  shows "list_all2 cats_kept (charts pg) (charts pg') \<and>
         (metricData e = None \<longrightarrow> list_all2 chart_kept (charts pg) (charts pg'))"
proof (cases opn)
  case OpStore
  have "list_all2 chart_kept (charts pg) (charts pg')"
    using assms OpStore storeOriginalData_kept by auto
  then show ?thesis
    by (auto simp: chart_kept_def elim: list_all2_mono)
next
  case OpApply
  then show ?thesis using assms applyCharts_kept[of e "inputState pg" "charts pg"]
    by (auto simp: applyPage_def applyAllFilters_def split: sum.splits)
next
  case (OpReset t)
  then show ?thesis
    using assms applyCharts_kept[of e "inputState (resetControls fmt (the t) pg)" "charts pg"]
    by (auto simp: resetFilters_def applyAllFilters_def Let_def charts_resetControls
        split: option.splits sum.splits)
next
  case (OpChange k s)
  show ?thesis
  proof (cases "obj_get (inputState pg) k")
    case None
    then show ?thesis using assms OpChange
      by (auto simp: list_all2_refl cats_kept_refl chart_kept_refl)
  next
    case (Some a)
    then show ?thesis
      using assms OpChange applyCharts_kept[of e "obj_set (inputState pg) k s" "charts pg"]
      by (auto simp: applyPage_def applyAllFilters_def split: sum.splits)
  qed
qed

text \<open>
  Claim C2, amended. After any sequence of operations of the engine (storing the
  original data, filter application, reset, a change of a control) that completes, the
  original categories stored for a chart are the ones first stored; and when the page
  supplies no metric dataset, the original data stored for every series is the data
  first stored as well. (With a metric dataset, a metric switch replaces the stored data
  of the series it rebuilds.)
\<close>

theorem snapshot_kept:
  assumes "run_ops fmt e ops pg = Inr pg'"
  shows "list_all2 cats_kept (charts pg) (charts pg') \<and>
         (metricData e = None \<longrightarrow> list_all2 chart_kept (charts pg) (charts pg'))"
  using assms
proof (induction ops arbitrary: pg)
  case Nil
  then show ?case by (auto simp: list_all2_refl cats_kept_refl chart_kept_refl)
next
  case (Cons opn ops)
  from Cons.prems obtain p1 where a: "run_op fmt e opn pg = Inr p1"
    and b: "run_ops fmt e ops p1 = Inr pg'"
    by (auto split: sum.splits)
  have t1: "list_all2 cats_kept (charts pg) (charts pg')"
    using run_op_kept[OF a] Cons.IH[OF b]
      list_all2_trans[of cats_kept cats_kept cats_kept "charts pg" "charts p1" "charts pg'"]
      cats_kept_trans by blast
  have t2: "list_all2 chart_kept (charts pg) (charts pg')" if "metricData e = None"
    using that run_op_kept[OF a] Cons.IH[OF b]
      list_all2_trans[of chart_kept chart_kept chart_kept "charts pg" "charts p1" "charts pg'"]
      chart_kept_trans by blast
  show ?case using t1 t2 by simp
qed

lemmas reset_eval =
  removeActiveItems_def setChoiceByValue_def setItems_def updateSliderTrack_def
  sliderDisplayText_def updateSliderDisplay_def resetOne_def resetTargets_def resetControls_def
  resetFilters_def applyPage_def snapshot_of_def

lemmas ex_page_defs = ex_fmt_def ex_dflt_def ex_element_def ex_page_def ex_metric_env_def

theorem snapshot_kept_witness:
  "snapshot_of (run_ops ex_fmt ex_env [OpStore] ex_page) = [(None, [Some [PNum 1, PNum 2]])] \<and>
   snapshot_of (run_ops ex_fmt ex_env
      [OpStore, OpApply, OpChange ''metric_sel'' (ex_control ''metric'' Select [''k'']),
       OpReset (Some ''all''), OpStore] ex_page) =
     [(Some [JNum 2015, JNum 2016], [Some [PNum 1, PNum 2]])] \<and>
   (\<exists>pg1 pg2. run_ops ex_fmt ex_env [OpStore] ex_page = Inr pg1 \<and>
      run_ops ex_fmt ex_env
        [OpApply, OpChange ''metric_sel'' (ex_control ''metric'' Select [''k'']),
         OpReset (Some ''all''), OpStore] pg1 = Inr pg2 \<and>
      list_all2 chart_kept (charts pg1) (charts pg2))"
proof -
  let ?ops = "[OpApply, OpChange ''metric_sel'' (ex_control ''metric'' Select [''k'']),
         OpReset (Some ''all''), OpStore]"
  have s1: "snapshot_of (run_ops ex_fmt ex_env [OpStore] ex_page) = [(None, [Some [PNum 1, PNum 2]])]"
    by (simp add: js_eval filter_eval crossTab_eval reset_eval ex_defs ex_page_defs Let_def)
  have s2: "snapshot_of (run_ops ex_fmt ex_env (OpStore # ?ops) ex_page) =
     [(Some [JNum 2015, JNum 2016], [Some [PNum 1, PNum 2]])]"
    by (simp add: js_eval filter_eval crossTab_eval reset_eval ex_defs ex_page_defs Let_def)
  obtain pg1 where p1: "run_ops ex_fmt ex_env [OpStore] ex_page = Inr pg1"
    by simp
  have "\<exists>pg2. run_ops ex_fmt ex_env ?ops pg1 = Inr pg2"
    using p1 by (auto simp: js_eval filter_eval crossTab_eval reset_eval ex_defs ex_page_defs Let_def)
  then obtain pg2 where p2: "run_ops ex_fmt ex_env ?ops pg1 = Inr pg2" by auto
  have "list_all2 chart_kept (charts pg1) (charts pg2)"
    using snapshot_kept[OF p2] by (simp add: ex_env_def)
  then show ?thesis using s1 s2 p1 p2 by auto
qed

text \<open>
  The claim as stated fails under a metric filter: the data stored for the series \<open>A\<close>
  before the first filter application is replaced by that application, and again by the
  next one after the metric has changed.
\<close>

theorem snapshot_mutated_counterexample:
  "snapshot_of (run_ops ex_fmt ex_metric_env [OpStore] ex_page) =
     [(None, [Some [PNum 1, PNum 2]])] \<and>
   snapshot_of (run_ops ex_fmt ex_metric_env [OpStore, OpApply] ex_page) =
     [(Some [JNum 2015, JNum 2016], [Some [PNum 9, PNull]])] \<and>
   snapshot_of (run_ops ex_fmt ex_metric_env
      [OpStore, OpApply, OpChange ''metric_sel'' (ex_control ''metric'' Select [''k''])] ex_page) =
     [(Some [JNum 2015, JNum 2016], [Some [PNull, PNum 5]])]"
  by (simp add: js_eval filter_eval crossTab_eval reset_eval ex_defs ex_page_defs Let_def)


section \<open>Applying the filters twice\<close>

text \<open>
  Claim C1 does not hold of the code: two filter applications in a row, with the same
  control states and the same stored snapshot, can display different data. The test for
  a numeric x axis reads the live points of the first series, not the snapshot. In the
  chart below the series shows no point at first, so the first application takes the
  axis for not numeric: it displays the point of the selected metric and applies no
  slider. The second application finds that point, takes the axis for numeric, and the
  slider at 2016 removes the point of 2015. The stored data of the series is the same
  before the first, after the first and after the second application.
\<close>

theorem filter_twice_differs:
  "applyChart ex_point_env ex_point_state (ex_point_chart [] 0) =
     Inr (ex_point_chart [PObj (Some 2015) (Some 7)] 1) \<and>
   applyChart ex_point_env ex_point_state (ex_point_chart [PObj (Some 2015) (Some 7)] 1) =
     Inr (ex_point_chart [] 2) \<and>
   map original (chart_series (ex_point_chart [] 0)) =
     map original (chart_series (ex_point_chart [PObj (Some 2015) (Some 7)] 1)) \<and>
   map original (chart_series (ex_point_chart [PObj (Some 2015) (Some 7)] 1)) =
     map original (chart_series (ex_point_chart [] 2)) \<and>
   map data (chart_series (ex_point_chart [PObj (Some 2015) (Some 7)] 1)) \<noteq>
     map data (chart_series (ex_point_chart [] 2))"
  by (simp add: js_eval filter_eval crossTab_eval ex_defs ex_point_env_def ex_point_state_def
      ex_point_chart_def ex_slider_def Let_def)
end
